theory Spec2Isabelle
  imports Main
begin

section \<open>discord.js-captcha: the constructor, the presentation and the attempt loop\<close>

text \<open>
  A shallow embedding of \<^verbatim>\<open>src/Captcha.ts\<close> (class \<^verbatim>\<open>Captcha\<close>: the constructor,
  \<^verbatim>\<open>present\<close> and its inner \<^verbatim>\<open>handleAttempt\<close>) and of \<^verbatim>\<open>handleChannelType\<close>.

  Conventions of the embedding:
  \<^item> an optional property of a JavaScript object is an \<open>option\<close> field, \<open>None\<close> being
    \<^verbatim>\<open>undefined\<close>; JavaScript truthiness is written out (\<open>truthy_string\<close>,
    \<open>truthy_number\<close>, \<open>truthy_bool\<close>);
  \<^item> \<^verbatim>\<open>process.exit(1)\<close>, a rejected promise and an early \<^verbatim>\<open>return\<close> are values of
    the result types;
  \<^item> every call into discord.js (send, edit, delete, kick, role grant, event emission)
    is one entry of an effect trace, in program order;
  \<^item> what the platform answers is an explicit argument: the record \<open>platform\<close> for
    channel lookup and delivery, and a list of channel events (a message arriving in the
    prompt's channel, or the expiry of the running \<^verbatim>\<open>awaitMessages\<close> timer) for the
    attempt loop. Calls of the attempt loop into the platform are taken to succeed.
  \<^item> numbers are integers (\<^verbatim>\<open>attempts\<close> and \<^verbatim>\<open>timeout\<close> are documented as counts
    and milliseconds); strings are lists of 8-bit characters and \<^verbatim>\<open>toLowerCase\<close> is
    its restriction to ASCII letters.

  Line numbers are those of \<^verbatim>\<open>src/Captcha.ts\<close>.
\<close>

subsection \<open>JavaScript values\<close>

definition truthy_string :: "string option \<Rightarrow> bool" where
  "truthy_string v = (case v of None \<Rightarrow> False | Some s \<Rightarrow> s \<noteq> [])"

definition truthy_number :: "int option \<Rightarrow> bool" where
  "truthy_number v = (case v of None \<Rightarrow> False | Some n \<Rightarrow> n \<noteq> 0)"

definition truthy_bool :: "bool option \<Rightarrow> bool" where
  "truthy_bool v = (case v of None \<Rightarrow> False | Some b \<Rightarrow> b)"

text \<open>\<^verbatim>\<open>v || d\<close> on an optional number.\<close>

definition number_or :: "int option \<Rightarrow> int \<Rightarrow> int" where
  "number_or v d = (case v of None \<Rightarrow> d | Some n \<Rightarrow> if n = 0 then d else n)"

text \<open>\<^verbatim>\<open>v < k\<close> on an optional number: \<^verbatim>\<open>undefined < k\<close> is false.\<close>

definition number_less :: "int option \<Rightarrow> int \<Rightarrow> bool" where
  "number_less v k = (case v of None \<Rightarrow> False | Some n \<Rightarrow> n < k)"

definition lower_char :: "char \<Rightarrow> char" where
  "lower_char c =
     (case map_of (zip ''ABCDEFGHIJKLMNOPQRSTUVWXYZ'' ''abcdefghijklmnopqrstuvwxyz'') c of
        None \<Rightarrow> c
      | Some l \<Rightarrow> l)"

definition toLowerCase :: "string \<Rightarrow> string" where
  "toLowerCase s = map lower_char s"

subsection \<open>Data\<close>

datatype embed = Embed string

record CaptchaOptions =
  roleID :: "string option"
  channelID :: "string option"
  sendToTextChannel :: "bool option"
  addRoleOnSuccess :: "bool option"
  kickOnFailure :: "bool option"
  caseSensitive :: "bool option"
  attempts :: "int option"
  timeout :: "int option"
  showAttemptCount :: "bool option"
  customPromptEmbed :: "embed option"
  customSuccessEmbed :: "embed option"
  customFailureEmbed :: "embed option"

text \<open>The options object \<^verbatim>\<open>{}\<close>.\<close>

definition no_options :: CaptchaOptions where
  "no_options =
     \<lparr>roleID = None, channelID = None, sendToTextChannel = None, addRoleOnSuccess = None,
      kickOnFailure = None, caseSensitive = None, attempts = None, timeout = None,
      showAttemptCount = None, customPromptEmbed = None, customSuccessEmbed = None,
      customFailureEmbed = None\<rparr>"

text \<open>
  \<^verbatim>\<open>CaptchaImageData\<close> as the type declares it, and a custom captcha as a JavaScript
  caller can pass it: the image is falsy (missing, \<^verbatim>\<open>null\<close>, \<^verbatim>\<open>""\<close>), a
  \<^verbatim>\<open>Buffer\<close> of bytes, or some other truthy value; the text may be missing.
\<close>

record CaptchaImageData =
  image_buf :: "nat list"
  text_str :: string

datatype image_value = FalsyImage | BufferImage "nat list" | OtherImage

record CustomCaptcha =
  custom_image :: image_value
  custom_text :: "string option"

record GuildMember =
  user_id :: string
  guild_name :: string

record Message =
  author_id :: string
  content :: string

datatype ChannelType = GuildText | DM | OtherChannelType

datatype Channel = Channel (channel_id: string) (channel_type: ChannelType)

text \<open>
  The platform as \<^verbatim>\<open>present\<close> and \<^verbatim>\<open>handleChannelType\<close> see it:
  \<open>createDM\<close> is what \<^verbatim>\<open>member.user.createDM()\<close> resolves to (\<open>None\<close>: it rejects),
  \<open>resolve\<close> is \<^verbatim>\<open>guild.channels.resolve(id)\<close> (\<open>None\<close>: \<^verbatim>\<open>null\<close>), \<open>accepts\<close>
  tells whether \<^verbatim>\<open>channel.send\<close> is accepted, and \<open>createCaptcha\<close> is the imported
  generator \<^verbatim>\<open>./createCaptcha\<close>, a parameter of the embedding.
\<close>

record platform =
  createDM :: "Channel option"
  resolve :: "string \<Rightarrow> Channel option"
  accepts :: "Channel \<Rightarrow> bool"
  createCaptcha :: "nat \<Rightarrow> string \<Rightarrow> CaptchaImageData"

subsection \<open>Events and effects\<close>

datatype event_kind = PromptEvent | AnswerEvent | SuccessEvent | TimeoutEvent | FailureEvent

text \<open>
  The payload object of an emitted event. A property the object literal does not have is
  \<open>None\<close>. The fields are \<^verbatim>\<open>member\<close>, \<^verbatim>\<open>responses\<close>, \<^verbatim>\<open>response\<close>, \<^verbatim>\<open>attempts\<close>,
  \<^verbatim>\<open>captchaText\<close> and \<^verbatim>\<open>captchaOptions\<close>.
\<close>

record payload =
  ev_member :: "GuildMember option"
  ev_responses :: "string list option"
  ev_response :: "string option"
  ev_attempts :: "int option"
  ev_captchaText :: "string option"
  ev_captchaOptions :: "CaptchaOptions option"

datatype footer = OneAttempt | AttemptsLeft int

datatype rendered = Prompt "footer option" | Correct | Incorrect

datatype message_ref = PromptMessage | ResponseMessage Message | CorrectMessage | IncorrectMessage

datatype effect =
    Emit event_kind payload
  | Send Channel rendered
  | SendRefused Channel
  | Edit message_ref rendered
  | Delete message_ref
  | DeleteAfter nat message_ref
  | AddRole "string option"
  | Kick string
  | Log

subsection \<open>The constructor\<close>

text \<open>
  \<open>Unconfigured\<close> is the early \<^verbatim>\<open>return\<close> of the version check, \<open>ProcessExit\<close> is
  \<^verbatim>\<open>process.exit(1)\<close>, \<open>Constructed\<close> carries \<^verbatim>\<open>this.options\<close>. The arguments are the
  major version of discord.js, whether a client was given, and the options.
\<close>

datatype construction = Unconfigured | ProcessExit | Constructed CaptchaOptions

definition constructor :: "int \<Rightarrow> bool \<Rightarrow> CaptchaOptions \<Rightarrow> construction" where
  "constructor version_major client options =
     (if version_major < 14 then Unconfigured
      else if \<not> client then ProcessExit
      else if sendToTextChannel options = Some True \<and> \<not> truthy_string (channelID options)
        then ProcessExit
      else if addRoleOnSuccess options = Some True \<and> \<not> truthy_string (roleID options)
        then ProcessExit
      else if truthy_number (attempts options) \<and> number_less (attempts options) 1
        then ProcessExit
      else if truthy_number (timeout options) \<and> number_less (timeout options) 1
        then ProcessExit
      else Constructed (options
        \<lparr>addRoleOnSuccess :=
           (if addRoleOnSuccess options = None then Some True else addRoleOnSuccess options),
         attempts := Some (number_or (attempts options) 1),
         caseSensitive :=
           (if caseSensitive options = None then Some True else caseSensitive options),
         timeout := Some (number_or (timeout options) 60000),
         showAttemptCount :=
           (if showAttemptCount options = None then Some True else showAttemptCount options)\<rparr>))"

subsection \<open>handleChannelType\<close>

datatype error = ChannelNotFound | CreateDMRejected | SendRejected | NullChannel

definition handleChannelType :: "platform \<Rightarrow> CaptchaOptions \<Rightarrow> error + Channel" where
  "handleChannelType env options =
     (if \<not> truthy_string (channelID options) then
        (case createDM env of
           None \<Rightarrow> Inl CreateDMRejected
         | Some channel \<Rightarrow> Inr channel)
      else if sendToTextChannel options = Some True then
        (case channelID options of
           None \<Rightarrow> Inl ChannelNotFound
         | Some cid \<Rightarrow>
             (case resolve env cid of
                None \<Rightarrow> Inl ChannelNotFound
              | Some channel \<Rightarrow> Inr channel))
      else Inl ChannelNotFound)"

subsection \<open>The attempt loop\<close>

record presentation =
  cx_options :: CaptchaOptions
  cx_member :: GuildMember
  cx_captcha :: CaptchaImageData
  cx_channel :: Channel

record session =
  attemptsLeft :: int
  attemptsTaken :: int
  captchaResponses :: "string list"

datatype outcome = Pending | Success | TimedOut | Exhausted

text \<open>
  What the channel of the prompt delivers while \<^verbatim>\<open>awaitMessages\<close> waits: a message,
  or the expiry of the timer of the running call.
\<close>

datatype channel_event = Incoming Message | TimerExpired

definition captchaFilter :: "GuildMember \<Rightarrow> Message \<Rightarrow> bool" where
  "captchaFilter member x = (author_id x = user_id member)"

definition start_session :: "CaptchaOptions \<Rightarrow> session" where
  "start_session options =
     \<lparr>attemptsLeft = number_or (attempts options) 1, attemptsTaken = 1, captchaResponses = []\<rparr>"

text \<open>The payload of \<^verbatim>\<open>success\<close>, \<^verbatim>\<open>timeout\<close> and \<^verbatim>\<open>failure\<close>.\<close>

definition outcome_payload :: "presentation \<Rightarrow> session \<Rightarrow> payload" where
  "outcome_payload cx s =
     \<lparr>ev_member = Some (cx_member cx), ev_responses = Some (captchaResponses s),
      ev_response = None, ev_attempts = Some (attemptsTaken s),
      ev_captchaText = Some (text_str (cx_captcha cx)),
      ev_captchaOptions = Some (cx_options cx)\<rparr>"

definition answer_payload :: "presentation \<Rightarrow> session \<Rightarrow> Message \<Rightarrow> payload" where
  "answer_payload cx s x =
     \<lparr>ev_member = Some (cx_member cx), ev_responses = None,
      ev_response = Some (content x), ev_attempts = Some (attemptsTaken s),
      ev_captchaText = Some (text_str (cx_captcha cx)),
      ev_captchaOptions = Some (cx_options cx)\<rparr>"

definition prompt_payload :: "CaptchaOptions \<Rightarrow> GuildMember \<Rightarrow> CaptchaImageData \<Rightarrow> payload" where
  "prompt_payload options member captcha =
     \<lparr>ev_member = Some member, ev_responses = None, ev_response = None, ev_attempts = None,
      ev_captchaText = Some (text_str captcha), ev_captchaOptions = Some options\<rparr>"

definition in_guild_text :: "presentation \<Rightarrow> bool" where
  "in_guild_text cx = (channel_type (cx_channel cx) = GuildText)"

text \<open>Lines 264 to 278: no response was collected.\<close>

definition timeout_effects :: "presentation \<Rightarrow> session \<Rightarrow> effect list" where
  "timeout_effects cx s =
     [Emit TimeoutEvent (outcome_payload cx s), Delete PromptMessage,
      Send (cx_channel cx) Incorrect]
     @ (if truthy_bool (kickOnFailure (cx_options cx)) then [Kick ''Failed to Pass CAPTCHA'']
        else [])
     @ (if in_guild_text cx then [DeleteAfter 3000 IncorrectMessage] else [])"

text \<open>Lines 282 to 293: the \<^verbatim>\<open>answer\<close> event and the removal of the response.\<close>

definition answer_effects :: "presentation \<Rightarrow> session \<Rightarrow> Message \<Rightarrow> effect list" where
  "answer_effects cx s x =
     Emit AnswerEvent (answer_payload cx s x)
     # (if in_guild_text cx then [Delete (ResponseMessage x)] else [])"

text \<open>Lines 297 to 312.\<close>

definition success_effects :: "presentation \<Rightarrow> session \<Rightarrow> effect list" where
  "success_effects cx s =
     [Emit SuccessEvent (outcome_payload cx s)]
     @ (if addRoleOnSuccess (cx_options cx) = Some True then [AddRole (roleID (cx_options cx))]
        else [])
     @ (if in_guild_text cx then [Delete PromptMessage] else [])
     @ [Send (cx_channel cx) Correct]
     @ (if in_guild_text cx then [DeleteAfter 3000 CorrectMessage] else [])"

text \<open>Lines 317 to 332: the prompt is edited in a guild text channel, sent again elsewhere.\<close>

definition reprompt_effects :: "presentation \<Rightarrow> session \<Rightarrow> effect list" where
  "reprompt_effects cx s =
     (if in_guild_text cx \<and> truthy_bool (showAttemptCount (cx_options cx)) then
        [Edit PromptMessage (Prompt (Some (AttemptsLeft (attemptsLeft s))))]
      else if \<not> in_guild_text cx then
        [Send (cx_channel cx)
           (Prompt (if truthy_bool (showAttemptCount (cx_options cx))
                    then Some (AttemptsLeft (attemptsLeft s)) else None))]
      else [])"

text \<open>Lines 338 to 352.\<close>

definition failure_effects :: "presentation \<Rightarrow> session \<Rightarrow> effect list" where
  "failure_effects cx s =
     [Emit FailureEvent (outcome_payload cx s)]
     @ (if in_guild_text cx then [Delete PromptMessage] else [])
     @ [Send (cx_channel cx) Incorrect]
     @ (if truthy_bool (kickOnFailure (cx_options cx)) then [Kick ''Failed to Pass CAPTCHA'']
        else [])
     @ (if in_guild_text cx then [DeleteAfter 3000 IncorrectMessage] else [])"

text \<open>Line 291: the response, lowercased unless \<^verbatim>\<open>caseSensitive\<close> is \<^verbatim>\<open>true\<close>.\<close>

definition normalise :: "CaptchaOptions \<Rightarrow> string \<Rightarrow> string" where
  "normalise options answer =
     (if caseSensitive options \<noteq> Some True then toLowerCase answer else answer)"

text \<open>
  \<^verbatim>\<open>handleAttempt\<close>. One call of \<^verbatim>\<open>awaitMessages\<close> (filter \<open>captchaFilter\<close>, one
  message at most) skips the messages that do not pass the filter and ends at the first
  that does, or at the expiry of its timer. \<open>Pending\<close> is a call still waiting when the
  events given are used up. The source returns \<^verbatim>\<open>true\<close> for \<open>Success\<close> and
  \<^verbatim>\<open>false\<close> for \<open>TimedOut\<close> and \<open>Exhausted\<close>.
\<close>

fun handleAttempt ::
  "presentation \<Rightarrow> session \<Rightarrow> channel_event list \<Rightarrow> outcome \<times> session \<times> effect list" where
  "handleAttempt cx s [] = (Pending, s, [])"
| "handleAttempt cx s (TimerExpired # evs) = (TimedOut, s, timeout_effects cx s)"
| "handleAttempt cx s (Incoming x # evs) =
     (if \<not> captchaFilter (cx_member cx) x then handleAttempt cx s evs
      else
        let answer = normalise (cx_options cx) (content x);
            s1 = s\<lparr>captchaResponses := captchaResponses s @ [answer]\<rparr>;
            heard = answer_effects cx s x
        in if answer = text_str (cx_captcha cx) then
             (Success, s1, heard @ success_effects cx s1)
           else if attemptsLeft s1 > 1 then
             let s2 = s1\<lparr>attemptsLeft := attemptsLeft s1 - 1,
                         attemptsTaken := attemptsTaken s1 + 1\<rparr>
             in (case handleAttempt cx s2 evs of
                   (out, s3, later) \<Rightarrow> (out, s3, heard @ reprompt_effects cx s2 @ later))
           else (Exhausted, s1, heard @ failure_effects cx s1))"

subsection \<open>present\<close>

datatype 'a completion = Returned 'a | Threw error

datatype delivery = Delivered Channel | Aborted | DeliveryThrew error

text \<open>\<^verbatim>\<open>channel.send\<close> of the prompt, on what a channel lookup gave.\<close>

definition send_prompt ::
  "platform \<Rightarrow> footer option \<Rightarrow> Channel option \<Rightarrow> (error + Channel) \<times> effect list" where
  "send_prompt env foot target =
     (case target of
        None \<Rightarrow> (Inl NullChannel, [])
      | Some channel \<Rightarrow>
          if accepts env channel then (Inr channel, [Send channel (Prompt foot)])
          else (Inl SendRejected, [SendRefused channel]))"

definition resolve_id :: "platform \<Rightarrow> string option \<Rightarrow> Channel option" where
  "resolve_id env cid = (case cid of None \<Rightarrow> None | Some c \<Rightarrow> resolve env c)"

text \<open>Lines 238 to 248: the \<^verbatim>\<open>catch\<close> block.\<close>

definition deliver_fallback ::
  "platform \<Rightarrow> CaptchaOptions \<Rightarrow> footer option \<Rightarrow> delivery \<times> effect list" where
  "deliver_fallback env options foot =
     (if truthy_string (channelID options) then
        (case send_prompt env foot (resolve_id env (channelID options)) of
           (Inl e, effs) \<Rightarrow> (DeliveryThrew e, effs)
         | (Inr channel, effs) \<Rightarrow> (Delivered channel, effs))
      else (Aborted, [Log]))"

text \<open>Lines 224 to 249: the \<^verbatim>\<open>try\<close> block, then the \<^verbatim>\<open>catch\<close> block.\<close>

definition deliver ::
  "platform \<Rightarrow> CaptchaOptions \<Rightarrow> footer option \<Rightarrow> delivery \<times> effect list" where
  "deliver env options foot =
     (let primary =
            (if truthy_string (channelID options) \<and> sendToTextChannel options = Some True
             then Inr (resolve_id env (channelID options))
             else (case createDM env of
                     None \<Rightarrow> Inl CreateDMRejected
                   | Some channel \<Rightarrow> Inr (Some channel)))
      in case primary of
           Inl e \<Rightarrow> deliver_fallback env options foot
         | Inr target \<Rightarrow>
             (case send_prompt env foot target of
                (Inr channel, effs) \<Rightarrow> (Delivered channel, effs)
              | (Inl e, effs) \<Rightarrow>
                  (case deliver_fallback env options foot of
                     (d, effs') \<Rightarrow> (d, effs @ effs'))))"

text \<open>Lines 182 to 186, with the captcha that line 188 uses when the checks pass.\<close>

definition checked_custom :: "CustomCaptcha \<Rightarrow> CaptchaImageData option" where
  "checked_custom c =
     (case custom_image c of
        FalsyImage \<Rightarrow> None
      | OtherImage \<Rightarrow> None
      | BufferImage b \<Rightarrow>
          (if truthy_string (custom_text c)
           then (case custom_text c of
                   None \<Rightarrow> None
                 | Some t \<Rightarrow> Some \<lparr>image_buf = b, text_str = t\<rparr>)
           else None))"

text \<open>Line 218: the footer of the first prompt.\<close>

definition first_footer :: "CaptchaOptions \<Rightarrow> footer option" where
  "first_footer options =
     (if truthy_bool (showAttemptCount options) then
        Some (if attempts options = Some 1 then OneAttempt
              else AttemptsLeft (number_or (attempts options) 1))
      else None)"

text \<open>
  \<^verbatim>\<open>present\<close>. The result is what the promise settles to, the effects up to there, and
  the attempt loop started (\<^verbatim>\<open>handleAttempt(this)\<close> is called and not awaited), if any.
\<close>

definition present ::
  "platform \<Rightarrow> CaptchaOptions \<Rightarrow> GuildMember option \<Rightarrow> CustomCaptcha option \<Rightarrow>
     bool completion \<times> effect list \<times> (presentation \<times> session) option" where
  "present env options member customCaptcha =
     (case member of
        None \<Rightarrow> (Returned False, [], None)
      | Some m \<Rightarrow>
          (case (case customCaptcha of
                   None \<Rightarrow>
                     Some (createCaptcha env 6
                       (if truthy_bool (caseSensitive options) then ''''
                        else ''ABCDEFGHIJKLMNOPQRSTUVWXYZ''))
                 | Some c \<Rightarrow> checked_custom c) of
             None \<Rightarrow> (Returned False, [], None)
           | Some captcha \<Rightarrow>
               (case handleChannelType env options of
                  Inl e \<Rightarrow> (Threw e, [], None)
                | Inr channelF \<Rightarrow>
                    (case deliver env options (first_footer options) of
                       (DeliveryThrew e, effs) \<Rightarrow> (Threw e, effs, None)
                     | (Aborted, effs) \<Rightarrow> (Returned True, effs, None)
                     | (Delivered channel, effs) \<Rightarrow>
                         (Returned True,
                          effs @ [Emit PromptEvent (prompt_payload options m captcha)],
                          Some (\<lparr>cx_options = options, cx_member = m, cx_captcha = captcha,
                                  cx_channel = channel\<rparr>,
                                start_session options))))))"

text \<open>
  A whole presentation: \<^verbatim>\<open>present\<close>, then the attempt loop it started on the events
  of the channel. The result is what \<^verbatim>\<open>present\<close> settled to, the outcome and the last
  state of the attempt loop when one was started, and all effects in order.
\<close>

definition run ::
  "platform \<Rightarrow> CaptchaOptions \<Rightarrow> GuildMember option \<Rightarrow> CustomCaptcha option \<Rightarrow>
     channel_event list \<Rightarrow> bool completion \<times> (outcome \<times> session) option \<times> effect list" where
  "run env options member customCaptcha evs =
     (case present env options member customCaptcha of
        (r, effs, None) \<Rightarrow> (r, None, effs)
      | (r, effs, Some (cx, s)) \<Rightarrow>
          (case handleAttempt cx s evs of
             (out, s', later) \<Rightarrow> (r, Some (out, s'), effs @ later)))"

section \<open>Notions used in the statements\<close>

text \<open>
  The answers of a run: the normalised texts of the messages that pass \<open>captchaFilter\<close>,
  in the order of arrival.
\<close>

fun answers :: "presentation \<Rightarrow> channel_event list \<Rightarrow> string list" where
  "answers cx [] = []"
| "answers cx (TimerExpired # evs) = answers cx evs"
| "answers cx (Incoming x # evs) =
     (if captchaFilter (cx_member cx) x
      then normalise (cx_options cx) (content x) # answers cx evs
      else answers cx evs)"

text \<open>The state after line 292, and after lines 315 and 316.\<close>

definition heard :: "presentation \<Rightarrow> session \<Rightarrow> Message \<Rightarrow> session" where
  "heard cx s x =
     s\<lparr>captchaResponses := captchaResponses s @ [normalise (cx_options cx) (content x)]\<rparr>"

definition retried :: "session \<Rightarrow> session" where
  "retried s = s\<lparr>attemptsLeft := attemptsLeft s - 1, attemptsTaken := attemptsTaken s + 1\<rparr>"

definition after_effects ::
  "effect list \<Rightarrow> outcome \<times> session \<times> effect list \<Rightarrow> outcome \<times> session \<times> effect list" where
  "after_effects effs r = (case r of (out, s, later) \<Rightarrow> (out, s, effs @ later))"

text \<open>The state after a list of wrong answers, each followed by a new round.\<close>

definition advanced :: "session \<Rightarrow> string list \<Rightarrow> session" where
  "advanced s as =
     s\<lparr>attemptsLeft := attemptsLeft s - int (length as),
       attemptsTaken := attemptsTaken s + int (length as),
       captchaResponses := captchaResponses s @ as\<rparr>"

text \<open>The state after a list of wrong answers of which the last used up the attempts.\<close>

definition exhausted :: "session \<Rightarrow> string list \<Rightarrow> session" where
  "exhausted s as =
     s\<lparr>attemptsLeft := min 1 (attemptsLeft s),
       attemptsTaken := attemptsTaken s + int (length as) - 1,
       captchaResponses := captchaResponses s @ as\<rparr>"

text \<open>A message that the running \<^verbatim>\<open>awaitMessages\<close> call does not collect.\<close>

definition ignored :: "presentation \<Rightarrow> channel_event \<Rightarrow> bool" where
  "ignored cx e =
     (case e of Incoming x \<Rightarrow> \<not> captchaFilter (cx_member cx) x | TimerExpired \<Rightarrow> False)"

text \<open>An effect that renders the prompt, or announces it.\<close>

definition reprompt :: "effect \<Rightarrow> bool" where
  "reprompt e =
     (case e of
        Emit k p \<Rightarrow> k = PromptEvent
      | Send c r \<Rightarrow> (case r of Prompt f \<Rightarrow> True | Correct \<Rightarrow> False | Incorrect \<Rightarrow> False)
      | Edit m r \<Rightarrow> True
      | _ \<Rightarrow> False)"

text \<open>The events of an effect trace, and their names.\<close>

fun emitted :: "effect list \<Rightarrow> (event_kind \<times> payload) list" where
  "emitted [] = []"
| "emitted (Emit k p # effs) = (k, p) # emitted effs"
| "emitted (e # effs) = emitted effs"

definition kinds :: "effect list \<Rightarrow> event_kind list" where
  "kinds effs = map fst (emitted effs)"

text \<open>
  Which properties a payload has, in the order \<^verbatim>\<open>member\<close>, \<^verbatim>\<open>responses\<close>,
  \<^verbatim>\<open>response\<close>, \<^verbatim>\<open>attempts\<close>, \<^verbatim>\<open>captchaText\<close>, \<^verbatim>\<open>captchaOptions\<close>.
\<close>

definition fields :: "payload \<Rightarrow> bool \<times> bool \<times> bool \<times> bool \<times> bool \<times> bool" where
  "fields p =
     (ev_member p \<noteq> None, ev_responses p \<noteq> None, ev_response p \<noteq> None,
      ev_attempts p \<noteq> None, ev_captchaText p \<noteq> None, ev_captchaOptions p \<noteq> None)"

text \<open>
  The five fields of the specification: the member, the response history, the attempts
  taken, the expected answer and the configuration.
\<close>

definition carries_all_five :: "payload \<Rightarrow> bool" where
  "carries_all_five p =
     (ev_member p \<noteq> None \<and> ev_responses p \<noteq> None \<and> ev_attempts p \<noteq> None \<and>
      ev_captchaText p \<noteq> None \<and> ev_captchaOptions p \<noteq> None)"

fun shape :: "event_kind \<Rightarrow> bool \<times> bool \<times> bool \<times> bool \<times> bool \<times> bool" where
  "shape PromptEvent = (True, False, False, False, True, True)"
| "shape AnswerEvent = (True, False, True, True, True, True)"
| "shape SuccessEvent = (True, True, False, True, True, True)"
| "shape TimeoutEvent = (True, True, False, True, True, True)"
| "shape FailureEvent = (True, True, False, True, True, True)"

fun final_kinds :: "outcome \<Rightarrow> event_kind list" where
  "final_kinds Pending = []"
| "final_kinds Success = [SuccessEvent]"
| "final_kinds TimedOut = [TimeoutEvent]"
| "final_kinds Exhausted = [FailureEvent]"

text \<open>An effect that removes a response or a confirmation message.\<close>

definition clears :: "effect \<Rightarrow> bool" where
  "clears e =
     (case e of
        Delete m \<Rightarrow> m \<noteq> PromptMessage
      | DeleteAfter n m \<Rightarrow> True
      | _ \<Rightarrow> False)"

text \<open>
  Confirmation messages are removed by a timer of 3000 milliseconds and in no other way,
  and nothing else is removed by a timer.
\<close>

definition timely :: "effect \<Rightarrow> bool" where
  "timely e =
     (case e of
        Delete m \<Rightarrow> m \<noteq> CorrectMessage \<and> m \<noteq> IncorrectMessage
      | DeleteAfter n m \<Rightarrow> n = 3000 \<and> (m = CorrectMessage \<or> m = IncorrectMessage)
      | _ \<Rightarrow> True)"

text \<open>The response messages an effect trace removes.\<close>

fun response_deletions :: "effect list \<Rightarrow> Message list" where
  "response_deletions [] = []"
| "response_deletions (Delete (ResponseMessage x) # effs) = x # response_deletions effs"
| "response_deletions (e # effs) = response_deletions effs"

text \<open>The messages of the member among the events, in the order of arrival.\<close>

fun member_messages :: "GuildMember \<Rightarrow> channel_event list \<Rightarrow> Message list" where
  "member_messages m [] = []"
| "member_messages m (TimerExpired # evs) = member_messages m evs"
| "member_messages m (Incoming x # evs) =
     (if captchaFilter m x then x # member_messages m evs else member_messages m evs)"

text \<open>The captcha of a presentation: lines 182 to 188.\<close>

definition challenge_of ::
  "platform \<Rightarrow> CaptchaOptions \<Rightarrow> CustomCaptcha option \<Rightarrow> CaptchaImageData option" where
  "challenge_of env options customCaptcha =
     (case customCaptcha of
        None \<Rightarrow>
          Some (createCaptcha env 6
            (if truthy_bool (caseSensitive options) then ''''
             else ''ABCDEFGHIJKLMNOPQRSTUVWXYZ''))
      | Some c \<Rightarrow> checked_custom c)"

text \<open>
  The notifications as values. \<^verbatim>\<open>prompt\<close> has the member, the captcha text and the
  options; \<^verbatim>\<open>answer\<close> has the member, the response as received, the attempts taken,
  the captcha text and the options; \<^verbatim>\<open>success\<close>, \<^verbatim>\<open>timeout\<close> and \<^verbatim>\<open>failure\<close> have
  the member, the history of responses, the attempts taken, the captcha text and the
  options. The answers of a session count the attempts from the given number on. After
  \<open>n\<close> responses the attempts taken are \<open>n\<close> when the last response ended the session
  and \<open>n + 1\<close> when the session waits or has waited for another. \<open>notifications\<close> is
  the whole sequence for the responses as received: one \<^verbatim>\<open>prompt\<close>, one \<^verbatim>\<open>answer\<close>
  per response, and the notification of the outcome with the history as recorded.
\<close>

definition prompt_notification ::
  "CaptchaOptions \<Rightarrow> GuildMember \<Rightarrow> string \<Rightarrow> event_kind \<times> payload" where
  "prompt_notification options m expected =
     (PromptEvent,
      \<lparr>ev_member = Some m, ev_responses = None, ev_response = None, ev_attempts = None,
       ev_captchaText = Some expected, ev_captchaOptions = Some options\<rparr>)"

definition answer_notification ::
  "CaptchaOptions \<Rightarrow> GuildMember \<Rightarrow> string \<Rightarrow> int \<Rightarrow> string \<Rightarrow> event_kind \<times> payload" where
  "answer_notification options m expected taken raw =
     (AnswerEvent,
      \<lparr>ev_member = Some m, ev_responses = None, ev_response = Some raw,
       ev_attempts = Some taken, ev_captchaText = Some expected,
       ev_captchaOptions = Some options\<rparr>)"

definition outcome_notification ::
  "event_kind \<Rightarrow> CaptchaOptions \<Rightarrow> GuildMember \<Rightarrow> string \<Rightarrow> string list \<Rightarrow> int \<Rightarrow>
     event_kind \<times> payload" where
  "outcome_notification k options m expected history taken =
     (k,
      \<lparr>ev_member = Some m, ev_responses = Some history, ev_response = None,
       ev_attempts = Some taken, ev_captchaText = Some expected,
       ev_captchaOptions = Some options\<rparr>)"

fun answer_notifications ::
  "CaptchaOptions \<Rightarrow> GuildMember \<Rightarrow> string \<Rightarrow> int \<Rightarrow> string list \<Rightarrow>
     (event_kind \<times> payload) list" where
  "answer_notifications options m expected taken [] = []"
| "answer_notifications options m expected taken (raw # raws) =
     answer_notification options m expected taken raw
     # answer_notifications options m expected (taken + 1) raws"

fun outcome_notifications ::
  "outcome \<Rightarrow> CaptchaOptions \<Rightarrow> GuildMember \<Rightarrow> string \<Rightarrow> string list \<Rightarrow> int \<Rightarrow>
     (event_kind \<times> payload) list" where
  "outcome_notifications Pending options m expected history taken = []"
| "outcome_notifications Success options m expected history taken =
     [outcome_notification SuccessEvent options m expected history taken]"
| "outcome_notifications TimedOut options m expected history taken =
     [outcome_notification TimeoutEvent options m expected history taken]"
| "outcome_notifications Exhausted options m expected history taken =
     [outcome_notification FailureEvent options m expected history taken]"

fun taken_after :: "outcome \<Rightarrow> nat \<Rightarrow> int" where
  "taken_after Pending n = int n + 1"
| "taken_after TimedOut n = int n + 1"
| "taken_after Success n = int n"
| "taken_after Exhausted n = int n"

definition notifications ::
  "CaptchaOptions \<Rightarrow> GuildMember \<Rightarrow> string \<Rightarrow> outcome \<Rightarrow> string list \<Rightarrow>
     (event_kind \<times> payload) list" where
  "notifications options m expected out raws =
     prompt_notification options m expected
     # answer_notifications options m expected 1 raws
     @ outcome_notifications out options m expected (map (normalise options) raws)
         (taken_after out (length raws))"

text \<open>
  Equality after normalisation as the specification words it: both sides are lowercased
  unless \<^verbatim>\<open>caseSensitive\<close> is \<^verbatim>\<open>true\<close>.
\<close>

definition equal_after_normalisation :: "CaptchaOptions \<Rightarrow> string \<Rightarrow> string \<Rightarrow> bool" where
  "equal_after_normalisation options response expected =
     (if caseSensitive options = Some True then response = expected
      else toLowerCase response = toLowerCase expected)"

subsection \<open>Concrete inputs\<close>

definition alice :: GuildMember where
  "alice = \<lparr>user_id = ''alice'', guild_name = ''guild''\<rparr>"

definition says :: "string \<Rightarrow> string \<Rightarrow> channel_event" where
  "says who words = Incoming \<lparr>author_id = who, content = words\<rparr>"

definition dm :: Channel where
  "dm = Channel ''dm'' DM"

definition lobby :: Channel where
  "lobby = Channel ''lobby'' GuildText"

text \<open>
  Options as the constructor leaves them for \<^verbatim>\<open>{roleID: "role"}\<close> with the given
  \<^verbatim>\<open>attempts\<close> and \<^verbatim>\<open>caseSensitive\<close>.
\<close>

definition with_role :: "int \<Rightarrow> bool \<Rightarrow> CaptchaOptions" where
  "with_role n sensitive =
     no_options\<lparr>roleID := Some ''role'', addRoleOnSuccess := Some True,
       caseSensitive := Some sensitive, attempts := Some n, timeout := Some 60000,
       showAttemptCount := Some True\<rparr>"

definition png :: "nat list" where
  "png = [137, 80, 78, 71]"

definition challenge :: "string \<Rightarrow> CaptchaImageData" where
  "challenge expected = \<lparr>image_buf = png, text_str = expected\<rparr>"

text \<open>
  Two platforms: one where the direct-message channel and the channel \<open>lobby\<close> both
  exist and accept messages, one where the member's direct messages are locked.
\<close>

definition open_platform :: platform where
  "open_platform =
     \<lparr>createDM = Some dm,
      resolve = (\<lambda>cid. if cid = ''lobby'' then Some lobby else None),
      accepts = (\<lambda>c. True),
      createCaptcha = (\<lambda>n excluded. challenge ''k7tplx'')\<rparr>"

definition locked_platform :: platform where
  "locked_platform =
     \<lparr>createDM = Some dm,
      resolve = (\<lambda>cid. if cid = ''lobby'' then Some lobby else None),
      accepts = (\<lambda>c. c \<noteq> dm),
      createCaptcha = (\<lambda>n excluded. challenge ''k7tplx'')\<rparr>"

text \<open>Options as the constructor leaves them for \<^verbatim>\<open>{}\<close>.\<close>

definition defaults :: CaptchaOptions where
  "defaults =
     no_options\<lparr>addRoleOnSuccess := Some True, caseSensitive := Some True, attempts := Some 1,
       timeout := Some 60000, showAttemptCount := Some True\<rparr>"

section \<open>Evaluation on concrete inputs\<close>

lemmas fixture_defs =
  alice_def says_def dm_def lobby_def with_role_def challenge_def open_platform_def
  locked_platform_def no_options_def defaults_def png_def

lemmas js_defs =
  truthy_string_def truthy_number_def truthy_bool_def number_or_def number_less_def

lemmas effect_defs =
  timeout_effects_def answer_effects_def success_effects_def reprompt_effects_def
  failure_effects_def outcome_payload_def answer_payload_def prompt_payload_def
  in_guild_text_def

lemmas present_defs =
  run_def present_def deliver_def deliver_fallback_def send_prompt_def resolve_id_def
  handleChannelType_def checked_custom_def first_footer_def start_session_def
  captchaFilter_def normalise_def toLowerCase_def lower_char_def

section \<open>The attempt loop, step by step\<close>

lemma handleAttempt_ignored:
  "\<not> captchaFilter (cx_member cx) x \<Longrightarrow>
   handleAttempt cx s (Incoming x # evs) = handleAttempt cx s evs"
  by simp

lemma handleAttempt_match:
  "captchaFilter (cx_member cx) x \<Longrightarrow>
   normalise (cx_options cx) (content x) = text_str (cx_captcha cx) \<Longrightarrow>
   handleAttempt cx s (Incoming x # evs) =
     (Success, heard cx s x, answer_effects cx s x @ success_effects cx (heard cx s x))"
  by (simp add: heard_def Let_def)

lemma handleAttempt_last:
  "captchaFilter (cx_member cx) x \<Longrightarrow>
   normalise (cx_options cx) (content x) \<noteq> text_str (cx_captcha cx) \<Longrightarrow>
   \<not> 1 < attemptsLeft s \<Longrightarrow>
   handleAttempt cx s (Incoming x # evs) =
     (Exhausted, heard cx s x, answer_effects cx s x @ failure_effects cx (heard cx s x))"
  by (simp add: heard_def Let_def)

lemma handleAttempt_retry:
  "captchaFilter (cx_member cx) x \<Longrightarrow>
   normalise (cx_options cx) (content x) \<noteq> text_str (cx_captcha cx) \<Longrightarrow>
   1 < attemptsLeft s \<Longrightarrow>
   handleAttempt cx s (Incoming x # evs) =
     after_effects (answer_effects cx s x @ reprompt_effects cx (retried (heard cx s x)))
       (handleAttempt cx (retried (heard cx s x)) evs)"
  by (simp add: heard_def retried_def after_effects_def Let_def split: prod.splits)

lemmas handleAttempt_steps =
  handleAttempt_ignored handleAttempt_match handleAttempt_last handleAttempt_retry

lemmas handleAttempt_eval = handleAttempt.simps Let_def

declare handleAttempt.simps(3) [simp del]

lemma after_effects_sel:
  "fst (after_effects effs r) = fst r"
  "fst (snd (after_effects effs r)) = fst (snd r)"
  "snd (snd (after_effects effs r)) = effs @ snd (snd r)"
  by (cases r; simp add: after_effects_def)+

lemma advanced_Nil: "advanced s [] = s"
  by (simp add: advanced_def)

lemma advanced_Cons:
  "advanced (retried (heard cx s x)) as = advanced s (normalise (cx_options cx) (content x) # as)"
  by (simp add: advanced_def retried_def heard_def)

lemma exhausted_retried:
  "1 < attemptsLeft s \<Longrightarrow>
   exhausted (retried (heard cx s x)) as = exhausted s (normalise (cx_options cx) (content x) # as)"
  by (simp add: exhausted_def retried_def heard_def)

lemma exhausted_last:
  "\<not> 1 < attemptsLeft s \<Longrightarrow> exhausted s [normalise (cx_options cx) (content x)] = heard cx s x"
  by (simp add: exhausted_def heard_def)

text \<open>
  Wrong answers, fewer than the attempts left, lead to a new round each: the loop goes
  on with the rest of the events from the advanced state.
\<close>

lemma wrong_prefix:
  "TimerExpired \<notin> set pre \<Longrightarrow>
   list_all (\<lambda>a. a \<noteq> text_str (cx_captcha cx)) (answers cx pre) \<Longrightarrow>
   int (length (answers cx pre)) < max 1 (attemptsLeft s) \<Longrightarrow>
   \<exists>effs. handleAttempt cx s (pre @ rest) =
     after_effects effs (handleAttempt cx (advanced s (answers cx pre)) rest)"
proof (induction pre arbitrary: s)
  case Nil
  have "handleAttempt cx s rest = after_effects [] (handleAttempt cx s rest)"
    by (simp add: after_effects_def split: prod.splits)
  then show ?case by (auto simp: advanced_Nil)
next
  case (Cons e pre)
  show ?case
  proof (cases e)
    case TimerExpired
    with Cons.prems show ?thesis by simp
  next
    case (Incoming x)
    show ?thesis
    proof (cases "captchaFilter (cx_member cx) x")
      case False
      with Cons Incoming show ?thesis by (simp add: handleAttempt_ignored)
    next
      case True
      with Cons.prems Incoming
      have wrong: "normalise (cx_options cx) (content x) \<noteq> text_str (cx_captcha cx)"
        and rest_wrong: "list_all (\<lambda>a. a \<noteq> text_str (cx_captcha cx)) (answers cx pre)"
        and left: "1 + int (length (answers cx pre)) < max 1 (attemptsLeft s)"
        and nt: "TimerExpired \<notin> set pre"
        by auto
      from left have more: "1 < attemptsLeft s" by simp
      from left
      have "int (length (answers cx pre)) < max 1 (attemptsLeft (retried (heard cx s x)))"
        by (simp add: retried_def heard_def)
      from Cons.IH [OF nt rest_wrong this] obtain effs where
        "handleAttempt cx (retried (heard cx s x)) (pre @ rest) =
           after_effects effs
             (handleAttempt cx (advanced (retried (heard cx s x)) (answers cx pre)) rest)"
        by blast
      then have "handleAttempt cx s (Incoming x # pre @ rest) =
         after_effects
           (answer_effects cx s x @ reprompt_effects cx (retried (heard cx s x)) @ effs)
           (handleAttempt cx (advanced s (answers cx (Incoming x # pre))) rest)"
        using True wrong more
        by (simp add: handleAttempt_retry advanced_Cons after_effects_def split: prod.splits)
      with Incoming show ?thesis by auto
    qed
  qed
qed

text \<open>As many wrong answers as there are attempts: the loop ends exhausted.\<close>

lemma wrong_run:
  "TimerExpired \<notin> set evs \<Longrightarrow>
   list_all (\<lambda>a. a \<noteq> text_str (cx_captcha cx)) (answers cx evs) \<Longrightarrow>
   int (length (answers cx evs)) = max 1 (attemptsLeft s) \<Longrightarrow>
   \<exists>effs. handleAttempt cx s evs =
     (Exhausted, exhausted s (answers cx evs),
      effs @ failure_effects cx (exhausted s (answers cx evs)))"
proof (induction evs arbitrary: s)
  case Nil
  then show ?case by simp
next
  case (Cons e evs)
  show ?case
  proof (cases e)
    case TimerExpired
    with Cons.prems show ?thesis by simp
  next
    case (Incoming x)
    show ?thesis
    proof (cases "captchaFilter (cx_member cx) x")
      case False
      with Cons Incoming show ?thesis by (simp add: handleAttempt_ignored)
    next
      case True
      with Cons.prems Incoming
      have wrong: "normalise (cx_options cx) (content x) \<noteq> text_str (cx_captcha cx)"
        and rest_wrong: "list_all (\<lambda>a. a \<noteq> text_str (cx_captcha cx)) (answers cx evs)"
        and count: "1 + int (length (answers cx evs)) = max 1 (attemptsLeft s)"
        and nt: "TimerExpired \<notin> set evs"
        by auto
      show ?thesis
      proof (cases "1 < attemptsLeft s")
        case more: True
        with count
        have "int (length (answers cx evs)) = max 1 (attemptsLeft (retried (heard cx s x)))"
          by (simp add: retried_def heard_def)
        from Cons.IH [OF nt rest_wrong this] obtain effs where
          "handleAttempt cx (retried (heard cx s x)) evs =
            (Exhausted, exhausted (retried (heard cx s x)) (answers cx evs),
             effs @ failure_effects cx (exhausted (retried (heard cx s x)) (answers cx evs)))"
          by blast
        with True wrong more Incoming show ?thesis
          by (simp add: handleAttempt_retry after_effects_def exhausted_retried)
      next
        case last: False
        with count have none: "answers cx evs = []" by simp
        with True wrong last Incoming show ?thesis
          by (simp add: handleAttempt_last exhausted_last)
      qed
    qed
  qed
qed

lemma no_reprompt_parts:
  "list_all (\<lambda>e. \<not> reprompt e) (timeout_effects cx s)"
  "list_all (\<lambda>e. \<not> reprompt e) (success_effects cx s)"
  "list_all (\<lambda>e. \<not> reprompt e) (failure_effects cx s)"
  "list_all (\<lambda>e. \<not> reprompt e) (answer_effects cx s x)"
  by (simp_all add: reprompt_def timeout_effects_def success_effects_def failure_effects_def
      answer_effects_def)

text \<open>With one attempt left the loop never renders the prompt again, whatever arrives.\<close>

lemma single_attempt_no_reprompt:
  "attemptsLeft s \<le> 1 \<Longrightarrow>
   list_all (\<lambda>e. \<not> reprompt e) (snd (snd (handleAttempt cx s evs)))"
proof (induction evs)
  case Nil
  then show ?case by simp
next
  case (Cons e evs)
  show ?case
  proof (cases e)
    case TimerExpired
    then show ?thesis by (simp add: no_reprompt_parts)
  next
    case (Incoming x)
    from Cons have "\<not> 1 < attemptsLeft s" by simp
    with Cons Incoming show ?thesis
      by (cases "captchaFilter (cx_member cx) x";
          cases "normalise (cx_options cx) (content x) = text_str (cx_captcha cx)")
        (simp_all add: handleAttempt_ignored handleAttempt_match handleAttempt_last
          no_reprompt_parts)
  qed
qed

section \<open>Exhaustion\<close>

text \<open>
  Claim C4. With \<^verbatim>\<open>attempts\<close> \<open>= N \<ge> 1\<close>, a session in which the member sends \<open>N\<close>
  answers, none equal to the captcha text, and no timer expires, ends \<open>Exhausted\<close>: the
  \<^verbatim>\<open>failure\<close> event is emitted from a state with \<open>attemptsTaken = N\<close> and \<open>N\<close>
  recorded responses. With \<open>N = 1\<close> no run of the session, whatever the channel
  delivers, edits or sends the prompt again or emits \<^verbatim>\<open>prompt\<close>.
\<close>

theorem exhausted_after_all_attempts:
  assumes "attempts (cx_options cx) = Some N" and "1 \<le> N"
    and "TimerExpired \<notin> set evs"
    and "list_all (\<lambda>a. a \<noteq> text_str (cx_captcha cx)) (answers cx evs)"
    and "int (length (answers cx evs)) = N"
  shows "\<exists>s' effs.
      handleAttempt cx (start_session (cx_options cx)) evs =
        (Exhausted, s', effs @ failure_effects cx s') \<and>
      attemptsTaken s' = N \<and> int (length (captchaResponses s')) = N \<and>
      ev_attempts (outcome_payload cx s') = Some N \<and>
      (N = 1 \<longrightarrow>
        (\<forall>evs'. list_all (\<lambda>e. \<not> reprompt e)
           (snd (snd (handleAttempt cx (start_session (cx_options cx)) evs')))))"
proof -
  let ?s = "start_session (cx_options cx)"
  from assms(1,2) have left: "attemptsLeft ?s = N"
    by (simp add: start_session_def number_or_def)
  with assms have "int (length (answers cx evs)) = max 1 (attemptsLeft ?s)"
    by simp
  from wrong_run [OF assms(3,4) this] obtain effs where
    run: "handleAttempt cx ?s evs =
     (Exhausted, exhausted ?s (answers cx evs),
      effs @ failure_effects cx (exhausted ?s (answers cx evs)))"
    by blast
  have single: "N = 1 \<longrightarrow>
        (\<forall>evs'. list_all (\<lambda>e. \<not> reprompt e) (snd (snd (handleAttempt cx ?s evs'))))"
    using left by (simp add: single_attempt_no_reprompt)
  from run assms(5) single show ?thesis
    by (simp add: start_session_def outcome_payload_def exhausted_def)
qed

theorem exhausted_after_all_attempts_witness:
  "attempts (with_role 2 True) = Some 2 \<and>
   answers \<lparr>cx_options = with_role 2 True, cx_member = alice,
            cx_captcha = challenge ''K7TPLX'', cx_channel = lobby\<rparr>
     [says ''alice'' ''k7tplx'', says ''bob'' ''K7TPLX'', says ''alice'' ''nope'']
     = [''k7tplx'', ''nope''] \<and>
   (\<exists>s' effs.
      handleAttempt \<lparr>cx_options = with_role 2 True, cx_member = alice,
            cx_captcha = challenge ''K7TPLX'', cx_channel = lobby\<rparr>
        (start_session (with_role 2 True))
        [says ''alice'' ''k7tplx'', says ''bob'' ''K7TPLX'', says ''alice'' ''nope'']
        = (Exhausted, s', effs) \<and>
      attemptsTaken s' = 2 \<and> length (captchaResponses s') = 2)"
proof -
  let ?cx = "\<lparr>cx_options = with_role 2 True, cx_member = alice,
            cx_captcha = challenge ''K7TPLX'', cx_channel = lobby\<rparr>"
  let ?evs = "[says ''alice'' ''k7tplx'', says ''bob'' ''K7TPLX'', says ''alice'' ''nope'']"
  have a: "attempts (cx_options ?cx) = Some 2"
    by (simp add: with_role_def no_options_def)
  have b: "(1::int) \<le> 2" by simp
  have c: "TimerExpired \<notin> set ?evs" by (simp add: says_def)
  have ans: "answers ?cx ?evs = [''k7tplx'', ''nope'']"
    by (simp add: says_def alice_def captchaFilter_def normalise_def with_role_def no_options_def)
  have d: "list_all (\<lambda>a. a \<noteq> text_str (cx_captcha ?cx)) (answers ?cx ?evs)"
    unfolding ans by (simp add: challenge_def)
  have e: "int (length (answers ?cx ?evs)) = 2"
    unfolding ans by simp
  from exhausted_after_all_attempts [OF a b c d e] obtain s' effs where
    "handleAttempt ?cx (start_session (cx_options ?cx)) ?evs =
       (Exhausted, s', effs @ failure_effects ?cx s')"
    and "attemptsTaken s' = 2" and "int (length (captchaResponses s')) = 2"
    by blast
  then have "handleAttempt ?cx (start_session (with_role 2 True)) ?evs =
       (Exhausted, s', effs @ failure_effects ?cx s') \<and>
     attemptsTaken s' = 2 \<and> length (captchaResponses s') = 2"
    by simp
  then have "\<exists>s' effs. handleAttempt ?cx (start_session (with_role 2 True)) ?evs =
       (Exhausted, s', effs) \<and> attemptsTaken s' = 2 \<and> length (captchaResponses s') = 2"
    by blast
  with a ans show ?thesis by simp
qed

section \<open>Timeout\<close>

text \<open>
  Claim C5. When the timer of the running \<^verbatim>\<open>awaitMessages\<close> call expires before a
  message of the member arrived, the loop ends \<open>TimedOut\<close>: whatever the attempts left
  and whatever the channel delivers afterwards, the state is left as it was, the only
  effects are those of the timeout branch, and no further round is started. For a
  session that times out in its first round the recorded responses are empty, in the
  state and in the payload of the \<^verbatim>\<open>timeout\<close> event.
\<close>

theorem timeout_is_terminal:
  assumes "list_all (ignored cx) pre"
  shows "handleAttempt cx s (pre @ TimerExpired # rest) = (TimedOut, s, timeout_effects cx s)
    \<and> captchaResponses (start_session options) = []
    \<and> ev_responses (outcome_payload cx (start_session options)) = Some []
    \<and> list_all (\<lambda>e. \<not> reprompt e) (timeout_effects cx s)"
proof -
  from assms
  have "handleAttempt cx s (pre @ TimerExpired # rest) = (TimedOut, s, timeout_effects cx s)"
  proof (induction pre)
    case Nil
    then show ?case by simp
  next
    case (Cons e pre)
    then show ?case by (cases e) (simp_all add: ignored_def handleAttempt_ignored)
  qed
  then show ?thesis
    by (simp add: start_session_def outcome_payload_def no_reprompt_parts)
qed

theorem timeout_is_terminal_witness:
  "list_all (ignored \<lparr>cx_options = with_role 3 True, cx_member = alice,
       cx_captcha = challenge ''K7TPLX'', cx_channel = dm\<rparr>) [says ''bob'' ''K7TPLX'']
   \<and> handleAttempt \<lparr>cx_options = with_role 3 True, cx_member = alice,
       cx_captcha = challenge ''K7TPLX'', cx_channel = dm\<rparr> (start_session (with_role 3 True))
       [says ''bob'' ''K7TPLX'', TimerExpired, says ''alice'' ''K7TPLX'']
     = (TimedOut, \<lparr>attemptsLeft = 3, attemptsTaken = 1, captchaResponses = []\<rparr>,
        timeout_effects \<lparr>cx_options = with_role 3 True, cx_member = alice,
          cx_captcha = challenge ''K7TPLX'', cx_channel = dm\<rparr>
          \<lparr>attemptsLeft = 3, attemptsTaken = 1, captchaResponses = []\<rparr>)"
proof -
  let ?cx = "\<lparr>cx_options = with_role 3 True, cx_member = alice,
       cx_captcha = challenge ''K7TPLX'', cx_channel = dm\<rparr>"
  have a: "list_all (ignored ?cx) [says ''bob'' ''K7TPLX'']"
    by (simp add: ignored_def says_def alice_def captchaFilter_def)
  have s: "start_session (with_role 3 True) =
      \<lparr>attemptsLeft = 3, attemptsTaken = 1, captchaResponses = []\<rparr>"
    by (simp add: start_session_def with_role_def no_options_def number_or_def)
  from timeout_is_terminal [OF a, of "start_session (with_role 3 True)"
      "[says ''alice'' ''K7TPLX'']" "with_role 3 True"] a s
  show ?thesis by simp
qed

section \<open>Success\<close>

lemma with_role_constructed:
  "1 \<le> n \<Longrightarrow>
   constructor 14 True
     (no_options\<lparr>roleID := Some ''role'', caseSensitive := Some b, attempts := Some n\<rparr>)
   = Constructed (with_role n b)"
  by (simp add: constructor_def no_options_def with_role_def js_defs)

text \<open>
  After wrong answers of the member, fewer than the attempts left (at least one attempt
  is always given), the first message of the member whose normalised text equals the
  captcha text as it is ends the loop in \<open>Success\<close>, whatever the number of attempts
  left and whatever follows; the \<^verbatim>\<open>success\<close> event is emitted from a state that counts
  one attempt per answer and records all answers in order. The second conjunct is the
  scenario of three attempts, case-sensitive, expected \<^verbatim>\<open>K7TPLX\<close>, answers
  \<^verbatim>\<open>wrong1\<close> then \<^verbatim>\<open>K7TPLX\<close>.
\<close>

lemma matching_answer_succeeds:
  assumes "TimerExpired \<notin> set pre"
    and "list_all (\<lambda>a. a \<noteq> text_str (cx_captcha cx)) (answers cx pre)"
    and "int (length (answers cx pre)) < max 1 (attemptsLeft s)"
    and "captchaFilter (cx_member cx) x"
    and "normalise (cx_options cx) (content x) = text_str (cx_captcha cx)"
  shows "(\<exists>s' effs.
      handleAttempt cx s (pre @ Incoming x # rest) = (Success, s', effs @ success_effects cx s') \<and>
      attemptsLeft s' = attemptsLeft s - int (length (answers cx pre)) \<and>
      attemptsTaken s' = attemptsTaken s + int (length (answers cx pre)) \<and>
      captchaResponses s' = captchaResponses s @ answers cx pre @ [text_str (cx_captcha cx)])
    \<and> handleAttempt
        \<lparr>cx_options = with_role 3 True, cx_member = alice, cx_captcha = challenge ''K7TPLX'',
         cx_channel = dm\<rparr>
        (start_session (with_role 3 True))
        [says ''alice'' ''wrong1'', says ''alice'' ''K7TPLX'']
      = (Success,
         \<lparr>attemptsLeft = 2, attemptsTaken = 2, captchaResponses = [''wrong1'', ''K7TPLX'']\<rparr>,
         answer_effects
           \<lparr>cx_options = with_role 3 True, cx_member = alice, cx_captcha = challenge ''K7TPLX'',
            cx_channel = dm\<rparr>
           \<lparr>attemptsLeft = 3, attemptsTaken = 1, captchaResponses = []\<rparr>
           \<lparr>author_id = ''alice'', content = ''wrong1''\<rparr>
         @ [Send dm (Prompt (Some (AttemptsLeft 2)))]
         @ answer_effects
           \<lparr>cx_options = with_role 3 True, cx_member = alice, cx_captcha = challenge ''K7TPLX'',
            cx_channel = dm\<rparr>
           \<lparr>attemptsLeft = 2, attemptsTaken = 2, captchaResponses = [''wrong1'']\<rparr>
           \<lparr>author_id = ''alice'', content = ''K7TPLX''\<rparr>
         @ success_effects
           \<lparr>cx_options = with_role 3 True, cx_member = alice, cx_captcha = challenge ''K7TPLX'',
            cx_channel = dm\<rparr>
           \<lparr>attemptsLeft = 2, attemptsTaken = 2, captchaResponses = [''wrong1'', ''K7TPLX'']\<rparr>)"
proof
  from wrong_prefix [OF assms(1,2,3), of "Incoming x # rest"] obtain effs where
    "handleAttempt cx s (pre @ Incoming x # rest) =
       after_effects effs (handleAttempt cx (advanced s (answers cx pre)) (Incoming x # rest))"
    by blast
  with assms(4,5) have
    "handleAttempt cx s (pre @ Incoming x # rest) =
       (Success, heard cx (advanced s (answers cx pre)) x,
        (effs @ answer_effects cx (advanced s (answers cx pre)) x)
        @ success_effects cx (heard cx (advanced s (answers cx pre)) x))"
    by (simp add: handleAttempt_match after_effects_def)
  moreover have "attemptsLeft (heard cx (advanced s (answers cx pre)) x)
      = attemptsLeft s - int (length (answers cx pre))"
    and "attemptsTaken (heard cx (advanced s (answers cx pre)) x)
      = attemptsTaken s + int (length (answers cx pre))"
    and "captchaResponses (heard cx (advanced s (answers cx pre)) x)
      = captchaResponses s @ answers cx pre @ [text_str (cx_captcha cx)]"
    using assms(5) by (simp_all add: heard_def advanced_def)
  ultimately show "\<exists>s' effs.
      handleAttempt cx s (pre @ Incoming x # rest) = (Success, s', effs @ success_effects cx s') \<and>
      attemptsLeft s' = attemptsLeft s - int (length (answers cx pre)) \<and>
      attemptsTaken s' = attemptsTaken s + int (length (answers cx pre)) \<and>
      captchaResponses s' = captchaResponses s @ answers cx pre @ [text_str (cx_captcha cx)]"
    by blast
next
  show "handleAttempt
        \<lparr>cx_options = with_role 3 True, cx_member = alice, cx_captcha = challenge ''K7TPLX'',
         cx_channel = dm\<rparr>
        (start_session (with_role 3 True))
        [says ''alice'' ''wrong1'', says ''alice'' ''K7TPLX'']
      = (Success,
         \<lparr>attemptsLeft = 2, attemptsTaken = 2, captchaResponses = [''wrong1'', ''K7TPLX'']\<rparr>,
         answer_effects
           \<lparr>cx_options = with_role 3 True, cx_member = alice, cx_captcha = challenge ''K7TPLX'',
            cx_channel = dm\<rparr>
           \<lparr>attemptsLeft = 3, attemptsTaken = 1, captchaResponses = []\<rparr>
           \<lparr>author_id = ''alice'', content = ''wrong1''\<rparr>
         @ [Send dm (Prompt (Some (AttemptsLeft 2)))]
         @ answer_effects
           \<lparr>cx_options = with_role 3 True, cx_member = alice, cx_captcha = challenge ''K7TPLX'',
            cx_channel = dm\<rparr>
           \<lparr>attemptsLeft = 2, attemptsTaken = 2, captchaResponses = [''wrong1'']\<rparr>
           \<lparr>author_id = ''alice'', content = ''K7TPLX''\<rparr>
         @ success_effects
           \<lparr>cx_options = with_role 3 True, cx_member = alice, cx_captcha = challenge ''K7TPLX'',
            cx_channel = dm\<rparr>
           \<lparr>attemptsLeft = 2, attemptsTaken = 2, captchaResponses = [''wrong1'', ''K7TPLX'']\<rparr>)"
    by (simp add: handleAttempt_eval says_def alice_def dm_def challenge_def with_role_def
        no_options_def start_session_def number_or_def captchaFilter_def normalise_def
        reprompt_effects_def in_guild_text_def truthy_bool_def)
qed

lemma matching_answer_succeeds_example:
  "answers \<lparr>cx_options = with_role 2 False, cx_member = alice,
       cx_captcha = challenge ''k7tplx'', cx_channel = lobby\<rparr>
     [says ''bob'' ''k7tplx'', says ''alice'' ''nope''] = [''nope'']
   \<and> (\<exists>effs. handleAttempt \<lparr>cx_options = with_role 2 False, cx_member = alice,
       cx_captcha = challenge ''k7tplx'', cx_channel = lobby\<rparr>
       (start_session (with_role 2 False))
       ([says ''bob'' ''k7tplx'', says ''alice'' ''nope'']
        @ Incoming \<lparr>author_id = ''alice'', content = ''K7TPLX''\<rparr> # [TimerExpired])
     = (Success,
        \<lparr>attemptsLeft = 1, attemptsTaken = 2, captchaResponses = [''nope'', ''k7tplx'']\<rparr>,
        effs))"
proof -
  let ?cx = "\<lparr>cx_options = with_role 2 False, cx_member = alice,
       cx_captcha = challenge ''k7tplx'', cx_channel = lobby\<rparr>"
  let ?pre = "[says ''bob'' ''k7tplx'', says ''alice'' ''nope'']"
  let ?x = "\<lparr>author_id = ''alice'', content = ''K7TPLX''\<rparr>"
  let ?s = "start_session (with_role 2 False)"
  have s: "?s = \<lparr>attemptsLeft = 2, attemptsTaken = 1, captchaResponses = []\<rparr>"
    by (simp add: start_session_def with_role_def no_options_def number_or_def)
  have a: "TimerExpired \<notin> set ?pre" by (simp add: says_def)
  have ans: "answers ?cx ?pre = [''nope'']"
    by (simp add: says_def alice_def captchaFilter_def normalise_def with_role_def no_options_def
        toLowerCase_def lower_char_def)
  have b: "list_all (\<lambda>a. a \<noteq> text_str (cx_captcha ?cx)) (answers ?cx ?pre)"
    unfolding ans by (simp add: challenge_def)
  have c: "int (length (answers ?cx ?pre)) < max 1 (attemptsLeft ?s)"
    unfolding ans s by simp
  have d: "captchaFilter (cx_member ?cx) ?x"
    by (simp add: captchaFilter_def alice_def)
  have e: "normalise (cx_options ?cx) (content ?x) = text_str (cx_captcha ?cx)"
    by (simp add: normalise_def with_role_def no_options_def toLowerCase_def lower_char_def
        challenge_def)
  from matching_answer_succeeds [OF a b c d e, of "[TimerExpired]"] obtain s' effs where
    r: "handleAttempt ?cx ?s (?pre @ Incoming ?x # [TimerExpired])
         = (Success, s', effs @ success_effects ?cx s')"
    and l: "attemptsLeft s' = attemptsLeft ?s - int (length (answers ?cx ?pre))"
    and t: "attemptsTaken s' = attemptsTaken ?s + int (length (answers ?cx ?pre))"
    and h: "captchaResponses s' =
        captchaResponses ?s @ answers ?cx ?pre @ [text_str (cx_captcha ?cx)]"
    by blast
  from l t h
  have "s' = \<lparr>attemptsLeft = 1, attemptsTaken = 2, captchaResponses = [''nope'', ''k7tplx'']\<rparr>"
    unfolding ans s by (cases s') (simp add: challenge_def)
  with r ans show ?thesis by blast
qed

text \<open>
  Where the captcha text has no upper-case letter, or \<^verbatim>\<open>caseSensitive\<close> is \<^verbatim>\<open>true\<close>,
  the comparison of the loop is equality after normalisation.
\<close>

lemma readings_agree:
  "caseSensitive options = Some True \<or> toLowerCase expected = expected \<Longrightarrow>
   equal_after_normalisation options response expected
     = (normalise options response = expected)"
  by (auto simp add: equal_after_normalisation_def normalise_def)

text \<open>
  Claim C6 on a custom captcha with the text \<^verbatim>\<open>K7TPLX\<close>, \<^verbatim>\<open>caseSensitive: false\<close> and
  three attempts. The first response \<^verbatim>\<open>k7tplx\<close> equals the text after normalisation
  of both sides; the loop compares it with \<^verbatim>\<open>K7TPLX\<close> as it is, counts it as a wrong
  answer and waits for the next. No response in any case is accepted, and three of them
  end the session \<open>Exhausted\<close>.
\<close>

theorem matching_answer_of_other_case_rejected:
  "equal_after_normalisation (with_role 3 False) ''k7tplx'' ''K7TPLX''
   \<and> fst (snd (run open_platform (with_role 3 False) (Some alice)
       (Some \<lparr>custom_image = BufferImage png, custom_text = Some ''K7TPLX''\<rparr>)
       [says ''alice'' ''k7tplx'']))
     = Some (Pending, \<lparr>attemptsLeft = 2, attemptsTaken = 2, captchaResponses = [''k7tplx'']\<rparr>)
   \<and> fst (snd (run open_platform (with_role 3 False) (Some alice)
       (Some \<lparr>custom_image = BufferImage png, custom_text = Some ''K7TPLX''\<rparr>)
       [says ''alice'' ''k7tplx'', says ''alice'' ''K7TPLX'', says ''alice'' ''K7tplx'']))
     = Some (Exhausted,
         \<lparr>attemptsLeft = 1, attemptsTaken = 3,
          captchaResponses = [''k7tplx'', ''k7tplx'', ''k7tplx'']\<rparr>)"
  by (simp add: equal_after_normalisation_def present_defs fixture_defs js_defs
      handleAttempt_eval)

section \<open>Events\<close>

lemma emitted_append: "emitted (a @ b) = emitted a @ emitted b"
  by (induction a rule: emitted.induct) simp_all

lemma emitted_parts:
  "emitted (timeout_effects cx s) = [(TimeoutEvent, outcome_payload cx s)]"
  "emitted (success_effects cx s) = [(SuccessEvent, outcome_payload cx s)]"
  "emitted (failure_effects cx s) = [(FailureEvent, outcome_payload cx s)]"
  "emitted (answer_effects cx s x) = [(AnswerEvent, answer_payload cx s x)]"
  "emitted (reprompt_effects cx s) = []"
  by (simp_all add: timeout_effects_def success_effects_def failure_effects_def
      answer_effects_def reprompt_effects_def)

lemma fields_parts:
  "fields (outcome_payload cx s) = (True, True, False, True, True, True)"
  "fields (answer_payload cx s x) = (True, False, True, True, True, True)"
  "fields (prompt_payload options m captcha) = (True, False, False, False, True, True)"
  by (simp_all add: fields_def outcome_payload_def answer_payload_def prompt_payload_def)

lemma handleAttempt_shapes:
  "list_all (\<lambda>e. fields (snd e) = shape (fst e)) (emitted (snd (snd (handleAttempt cx s evs))))"
proof (induction evs arbitrary: s)
  case Nil
  then show ?case by simp
next
  case (Cons e evs)
  show ?case
  proof (cases e)
    case TimerExpired
    then show ?thesis by (simp add: emitted_parts fields_parts)
  next
    case (Incoming x)
    with Cons show ?thesis
      by (cases "captchaFilter (cx_member cx) x";
          cases "normalise (cx_options cx) (content x) = text_str (cx_captcha cx)";
          cases "1 < attemptsLeft s")
        (simp_all add: handleAttempt_steps emitted_append after_effects_sel emitted_parts
          fields_parts)
  qed
qed

text \<open>
  The loop emits one \<^verbatim>\<open>answer\<close> per response it records, then the event of its
  outcome.
\<close>

lemma handleAttempt_kinds:
  "kinds (snd (snd (handleAttempt cx s evs))) =
     replicate (length (captchaResponses (fst (snd (handleAttempt cx s evs))))
                - length (captchaResponses s)) AnswerEvent
     @ final_kinds (fst (handleAttempt cx s evs))
   \<and> length (captchaResponses s) \<le> length (captchaResponses (fst (snd (handleAttempt cx s evs))))"
proof (induction evs arbitrary: s)
  case Nil
  then show ?case by (simp add: kinds_def)
next
  case (Cons e evs)
  show ?case
  proof (cases e)
    case TimerExpired
    then show ?thesis by (simp add: kinds_def emitted_parts)
  next
    case (Incoming x)
    show ?thesis
    proof (cases "captchaFilter (cx_member cx) x")
      case False
      with Cons Incoming show ?thesis by (simp add: handleAttempt_ignored)
    next
      case True
      show ?thesis
      proof (cases "normalise (cx_options cx) (content x) = text_str (cx_captcha cx)")
        case match: True
        with True Incoming show ?thesis
          by (simp add: handleAttempt_match kinds_def emitted_append emitted_parts heard_def)
      next
        case wrong: False
        show ?thesis
        proof (cases "1 < attemptsLeft s")
          case False
          with True wrong Incoming show ?thesis
            by (simp add: handleAttempt_last kinds_def emitted_append emitted_parts heard_def)
        next
          case more: True
          let ?s = "retried (heard cx s x)"
          let ?r = "handleAttempt cx ?s evs"
          have len: "length (captchaResponses ?s) = Suc (length (captchaResponses s))"
            by (simp add: retried_def heard_def)
          from Cons.IH [of ?s] have
            k: "kinds (snd (snd ?r)) =
                 replicate (length (captchaResponses (fst (snd ?r)))
                            - length (captchaResponses ?s)) AnswerEvent
                 @ final_kinds (fst ?r)"
            and l: "length (captchaResponses ?s) \<le> length (captchaResponses (fst (snd ?r)))"
            by simp_all
          from l len have
            "length (captchaResponses (fst (snd ?r))) - length (captchaResponses s) =
               Suc (length (captchaResponses (fst (snd ?r))) - length (captchaResponses ?s))"
            by simp
          with k l len True wrong more Incoming show ?thesis
            by (simp add: handleAttempt_retry after_effects_sel kinds_def emitted_append
                emitted_parts)
        qed
      qed
    qed
  qed
qed

lemma emitted_send_prompt: "send_prompt env foot target = (r, effs) \<Longrightarrow> emitted effs = []"
  by (auto simp add: send_prompt_def split: option.splits if_splits)

lemma emitted_deliver_fallback:
  "deliver_fallback env options foot = (d, effs) \<Longrightarrow> emitted effs = []"
  by (auto simp add: deliver_fallback_def split: prod.splits sum.splits if_splits
      dest: emitted_send_prompt)

lemma emitted_deliver: "deliver env options foot = (d, effs) \<Longrightarrow> emitted effs = []"
  by (auto simp add: deliver_def Let_def emitted_append
      split: prod.splits sum.splits option.splits if_splits
      dest: emitted_send_prompt emitted_deliver_fallback)

text \<open>What \<^verbatim>\<open>present\<close> has done when it starts the attempt loop, and when it does not.\<close>

lemma present_started:
  "present env options member custom = (r, effs, Some (cx, s)) \<Longrightarrow>
   s = start_session options \<and> cx_options cx = options \<and> member = Some (cx_member cx) \<and>
   r = Returned True \<and>
   emitted effs = [(PromptEvent, prompt_payload options (cx_member cx) (cx_captcha cx))]"
  by (auto simp add: present_def emitted_append
      split: option.splits sum.splits prod.splits delivery.splits
      dest: emitted_deliver)

lemma present_not_started:
  "present env options member custom = (r, effs, None) \<Longrightarrow> emitted effs = []"
  by (auto simp add: present_def emitted_append
      split: option.splits sum.splits prod.splits delivery.splits
      dest: emitted_deliver)

text \<open>
  Claim C8, as the specification states it, fails on the first event of any presentation:
  the payload of \<^verbatim>\<open>prompt\<close> is \<^verbatim>\<open>{member, captchaText, captchaOptions}\<close>, without
  response history and attempts taken. Here: default direct-message delivery, one
  attempt, and a timeout.
\<close>

theorem prompt_payload_incomplete:
  "\<not> list_all (\<lambda>e. carries_all_five (snd e))
       (emitted (snd (snd
          (run open_platform (with_role 1 True) (Some alice) None [TimerExpired]))))"
  by (simp add: present_defs fixture_defs js_defs handleAttempt_eval effect_defs
      carries_all_five_def)

text \<open>
  The kinds of the events of a presentation, and the properties their payloads have.
\<close>

lemma presentation_kinds:
  "list_all (\<lambda>e. fields (snd e) = shape (fst e))
     (emitted (snd (snd (run env options member custom evs))))
   \<and> kinds (snd (snd (run env options member custom evs))) =
     (case fst (snd (run env options member custom evs)) of
        None \<Rightarrow> []
      | Some (out, s') \<Rightarrow>
          PromptEvent # replicate (length (captchaResponses s')) AnswerEvent @ final_kinds out)"
proof (cases "snd (snd (present env options member custom))")
  case None
  then obtain r effs where p: "present env options member custom = (r, effs, None)"
    by (cases "present env options member custom") auto
  with present_not_started [OF p] show ?thesis
    by (simp add: run_def kinds_def)
next
  case (Some a)
  obtain cx s where a: "a = (cx, s)" by (cases a)
  with Some obtain r effs where p: "present env options member custom = (r, effs, Some (cx, s))"
    by (cases "present env options member custom") auto
  note ps = present_started [OF p]
  obtain out s' later where h: "handleAttempt cx s evs = (out, s', later)"
    by (cases "handleAttempt cx s evs")
  from ps have s0: "captchaResponses s = []" by (simp add: start_session_def)
  from handleAttempt_kinds [of cx s evs] h s0
  have k: "kinds later = replicate (length (captchaResponses s')) AnswerEvent @ final_kinds out"
    by simp
  from handleAttempt_shapes [of cx s evs] h
  have sh: "list_all (\<lambda>e. fields (snd e) = shape (fst e)) (emitted later)" by simp
  from ps
  have e: "emitted effs = [(PromptEvent, prompt_payload options (cx_member cx) (cx_captcha cx))]"
    by simp
  from p h k sh e show ?thesis
    by (simp add: run_def kinds_def emitted_append fields_parts)
qed

text \<open>The events of the loop and of \<^verbatim>\<open>present\<close>, as values.\<close>

lemma taken_after_Suc: "taken_after out (Suc n) = taken_after out n + 1"
  by (cases out) simp_all

lemma emitted_values:
  "emitted (timeout_effects cx s) =
     [outcome_notification TimeoutEvent (cx_options cx) (cx_member cx) (text_str (cx_captcha cx))
        (captchaResponses s) (attemptsTaken s)]"
  "emitted (success_effects cx s) =
     [outcome_notification SuccessEvent (cx_options cx) (cx_member cx) (text_str (cx_captcha cx))
        (captchaResponses s) (attemptsTaken s)]"
  "emitted (failure_effects cx s) =
     [outcome_notification FailureEvent (cx_options cx) (cx_member cx) (text_str (cx_captcha cx))
        (captchaResponses s) (attemptsTaken s)]"
  "emitted (answer_effects cx s x) =
     [answer_notification (cx_options cx) (cx_member cx) (text_str (cx_captcha cx))
        (attemptsTaken s) (content x)]"
  by (simp_all add: emitted_parts outcome_payload_def answer_payload_def
      outcome_notification_def answer_notification_def)

lemma handleAttempt_notifications:
  "\<exists>raws.
     take (length raws) (map content (member_messages (cx_member cx) evs)) = raws \<and>
     captchaResponses (fst (snd (handleAttempt cx s evs))) =
       captchaResponses s @ map (normalise (cx_options cx)) raws \<and>
     attemptsTaken (fst (snd (handleAttempt cx s evs))) =
       attemptsTaken s - 1 + taken_after (fst (handleAttempt cx s evs)) (length raws) \<and>
     emitted (snd (snd (handleAttempt cx s evs))) =
       answer_notifications (cx_options cx) (cx_member cx) (text_str (cx_captcha cx))
         (attemptsTaken s) raws
       @ outcome_notifications (fst (handleAttempt cx s evs)) (cx_options cx) (cx_member cx)
           (text_str (cx_captcha cx)) (captchaResponses s @ map (normalise (cx_options cx)) raws)
           (attemptsTaken s - 1 + taken_after (fst (handleAttempt cx s evs)) (length raws))"
  (is "\<exists>raws. ?P s evs raws")
proof (induction evs arbitrary: s)
  case Nil
  have "?P s [] []" by simp
  then show ?case by blast
next
  case (Cons e evs)
  show ?case
  proof (cases e)
    case TimerExpired
    then have "?P s (e # evs) []" by (simp add: emitted_values)
    then show ?thesis by blast
  next
    case (Incoming x)
    show ?thesis
    proof (cases "captchaFilter (cx_member cx) x")
      case False
      from Cons.IH [of s] obtain raws where "?P s evs raws" by blast
      with False Incoming have "?P s (e # evs) raws" by (simp add: handleAttempt_ignored)
      then show ?thesis by blast
    next
      case True
      show ?thesis
      proof (cases "normalise (cx_options cx) (content x) = text_str (cx_captcha cx)")
        case match: True
        with True Incoming have "?P s (e # evs) [content x]"
          by (simp add: handleAttempt_match emitted_append emitted_values emitted_parts heard_def)
        then show ?thesis by blast
      next
        case wrong: False
        show ?thesis
        proof (cases "1 < attemptsLeft s")
          case False
          with True wrong Incoming have "?P s (e # evs) [content x]"
            by (simp add: handleAttempt_last emitted_append emitted_values emitted_parts heard_def)
          then show ?thesis by blast
        next
          case more: True
          let ?s = "retried (heard cx s x)"
          from Cons.IH [of ?s] obtain raws where p: "?P ?s evs raws" by blast
          have s2: "attemptsTaken ?s = attemptsTaken s + 1"
            "captchaResponses ?s = captchaResponses s @ [normalise (cx_options cx) (content x)]"
            by (simp_all add: retried_def heard_def)
          from p True wrong more Incoming have "?P s (e # evs) (content x # raws)"
            unfolding s2
            by (simp add: handleAttempt_retry after_effects_sel emitted_append emitted_values
                emitted_parts taken_after_Suc)
          then show ?thesis by blast
        qed
      qed
    qed
  qed
qed

lemma present_started_values:
  "present env options member custom = (r, effs, Some (cx, s)) \<Longrightarrow>
   s = start_session options \<and> cx_options cx = options \<and> member = Some (cx_member cx) \<and>
   challenge_of env options custom = Some (cx_captcha cx) \<and>
   emitted effs = [prompt_notification options (cx_member cx) (text_str (cx_captcha cx))]"
  by (auto simp add: present_def challenge_of_def emitted_append prompt_payload_def
      prompt_notification_def
      split: option.splits sum.splits prod.splits delivery.splits
      dest: emitted_deliver)


text \<open>
  Claim C8, amended. A presentation that does not reach the attempt loop emits nothing.
  One that does emits exactly \<open>notifications\<close>: first \<^verbatim>\<open>prompt\<close> with the member, the
  captcha text and the options given (and no history, no attempts); then, for each
  response recorded, \<^verbatim>\<open>answer\<close> with the member, that response as the member sent it
  (\<^verbatim>\<open>response\<close>, not the history), the attempts taken when it arrived (1, 2, ...), the
  captcha text and the options; then, once the loop has ended, exactly one of
  \<^verbatim>\<open>success\<close>, \<^verbatim>\<open>timeout\<close>, \<^verbatim>\<open>failure\<close> as the last event, with all five: the
  member, the history of responses so far (each normalised as line 291 does), the
  attempts taken so far, the captcha text and the options. The responses are the first
  messages of the member in the channel, and the state the loop ends in holds the same
  history and attempts.
\<close>

theorem notifications_of_a_presentation:
  assumes "run env options member custom evs = (r, fin, effs)"
  shows "(fin = None \<longrightarrow> emitted effs = [])
    \<and> (\<forall>out s'. fin = Some (out, s') \<longrightarrow>
         (\<exists>m captcha.
            member = Some m \<and> challenge_of env options custom = Some captcha \<and>
            captchaResponses s' =
              map (\<lambda>x. normalise options (content x))
                (take (length (captchaResponses s')) (member_messages m evs)) \<and>
            attemptsTaken s' = taken_after out (length (captchaResponses s')) \<and>
            emitted effs =
              notifications options m (text_str captcha) out
                (map content (take (length (captchaResponses s')) (member_messages m evs)))))
    \<and> list_all (\<lambda>e. fields (snd e) = shape (fst e)) (emitted effs)
    \<and> kinds effs =
        (case fin of
           None \<Rightarrow> []
         | Some (out, s') \<Rightarrow>
             PromptEvent # replicate (length (captchaResponses s')) AnswerEvent
             @ final_kinds out)"
proof -
  from presentation_kinds [of env options member custom evs] assms
  have shapes: "list_all (\<lambda>e. fields (snd e) = shape (fst e)) (emitted effs)"
    and order: "kinds effs =
        (case fin of
           None \<Rightarrow> []
         | Some (out, s') \<Rightarrow>
             PromptEvent # replicate (length (captchaResponses s')) AnswerEvent
             @ final_kinds out)"
    by simp_all
  obtain r0 effs0 started where p: "present env options member custom = (r0, effs0, started)"
    by (cases "present env options member custom")
  have silent: "fin = None \<longrightarrow> emitted effs = []"
  proof
    assume "fin = None"
    with assms p have "started = None" and "effs = effs0"
      by (auto simp add: run_def split: option.splits prod.splits)
    with p present_not_started show "emitted effs = []" by blast
  qed
  have payloads: "\<forall>out s'. fin = Some (out, s') \<longrightarrow>
         (\<exists>m captcha.
            member = Some m \<and> challenge_of env options custom = Some captcha \<and>
            captchaResponses s' =
              map (\<lambda>x. normalise options (content x))
                (take (length (captchaResponses s')) (member_messages m evs)) \<and>
            attemptsTaken s' = taken_after out (length (captchaResponses s')) \<and>
            emitted effs =
              notifications options m (text_str captcha) out
                (map content (take (length (captchaResponses s')) (member_messages m evs))))"
  proof (intro allI impI)
    fix out s'
    assume fin: "fin = Some (out, s')"
    with assms p obtain cx s later where st: "started = Some (cx, s)"
      and h: "handleAttempt cx s evs = (out, s', later)" and e: "effs = effs0 @ later"
      by (auto simp add: run_def split: option.splits prod.splits)
    from present_started_values [OF p [unfolded st]]
    have s: "s = start_session options" and o: "cx_options cx = options"
      and m: "member = Some (cx_member cx)"
      and c: "challenge_of env options custom = Some (cx_captcha cx)"
      and pe: "emitted effs0 = [prompt_notification options (cx_member cx) (text_str (cx_captcha cx))]"
      by simp_all
    from s have s0: "captchaResponses s = []" "attemptsTaken s = 1"
      by (simp_all add: start_session_def)
    from handleAttempt_notifications [of cx evs s] obtain raws where
      pre: "take (length raws) (map content (member_messages (cx_member cx) evs)) = raws"
      and hist: "captchaResponses s' = map (normalise options) raws"
      and taken: "attemptsTaken s' = taken_after out (length raws)"
      and em: "emitted later =
         answer_notifications options (cx_member cx) (text_str (cx_captcha cx)) 1 raws
         @ outcome_notifications out options (cx_member cx) (text_str (cx_captcha cx))
             (map (normalise options) raws) (taken_after out (length raws))"
      unfolding h s0 o by auto
    from hist have len: "length (captchaResponses s') = length raws" by simp
    from pre have raws: "raws =
        map content (take (length (captchaResponses s')) (member_messages (cx_member cx) evs))"
      unfolding len by (simp add: take_map)
    have "captchaResponses s' =
        map (\<lambda>x. normalise options (content x))
          (take (length (captchaResponses s')) (member_messages (cx_member cx) evs))"
      using hist raws by (metis (no_types, lifting) map_map comp_def map_eq_conv)
    moreover have "attemptsTaken s' = taken_after out (length (captchaResponses s'))"
      using taken len by simp
    moreover have "emitted effs =
        notifications options (cx_member cx) (text_str (cx_captcha cx)) out
          (map content (take (length (captchaResponses s')) (member_messages (cx_member cx) evs)))"
      using e pe em raws by (simp add: emitted_append notifications_def)
    ultimately show "\<exists>m captcha.
            member = Some m \<and> challenge_of env options custom = Some captcha \<and>
            captchaResponses s' =
              map (\<lambda>x. normalise options (content x))
                (take (length (captchaResponses s')) (member_messages m evs)) \<and>
            attemptsTaken s' = taken_after out (length (captchaResponses s')) \<and>
            emitted effs =
              notifications options m (text_str captcha) out
                (map content (take (length (captchaResponses s')) (member_messages m evs)))"
      using m c by blast
  qed
  from silent payloads shapes order show ?thesis by blast
qed


theorem notifications_of_a_presentation_witness:
  "emitted (snd (snd (run open_platform (with_role 2 False) (Some alice) None
      [says ''alice'' ''Wrong'', says ''bob'' ''k7tplx'', says ''alice'' ''K7TPLX''])))
   = [(PromptEvent,
       \<lparr>ev_member = Some alice, ev_responses = None, ev_response = None, ev_attempts = None,
        ev_captchaText = Some ''k7tplx'', ev_captchaOptions = Some (with_role 2 False)\<rparr>),
      (AnswerEvent,
       \<lparr>ev_member = Some alice, ev_responses = None, ev_response = Some ''Wrong'',
        ev_attempts = Some 1, ev_captchaText = Some ''k7tplx'',
        ev_captchaOptions = Some (with_role 2 False)\<rparr>),
      (AnswerEvent,
       \<lparr>ev_member = Some alice, ev_responses = None, ev_response = Some ''K7TPLX'',
        ev_attempts = Some 2, ev_captchaText = Some ''k7tplx'',
        ev_captchaOptions = Some (with_role 2 False)\<rparr>),
      (SuccessEvent,
       \<lparr>ev_member = Some alice, ev_responses = Some [''wrong'', ''k7tplx''],
        ev_response = None, ev_attempts = Some 2, ev_captchaText = Some ''k7tplx'',
        ev_captchaOptions = Some (with_role 2 False)\<rparr>)]"
proof -
  let ?evs = "[says ''alice'' ''Wrong'', says ''bob'' ''k7tplx'', says ''alice'' ''K7TPLX'']"
  let ?R = "run open_platform (with_role 2 False) (Some alice) None ?evs"
  have pr: "?R = (fst ?R, fst (snd ?R), snd (snd ?R))" by simp
  have fin: "fst (snd ?R) = Some (Success,
        \<lparr>attemptsLeft = 1, attemptsTaken = 2, captchaResponses = [''wrong'', ''k7tplx'']\<rparr>)"
    by (simp add: present_defs fixture_defs js_defs handleAttempt_eval)
  have mm: "member_messages alice ?evs =
      [\<lparr>author_id = ''alice'', content = ''Wrong''\<rparr>,
       \<lparr>author_id = ''alice'', content = ''K7TPLX''\<rparr>]"
    by (simp add: says_def alice_def captchaFilter_def)
  have ch: "challenge_of open_platform (with_role 2 False) None = Some (challenge ''k7tplx'')"
    by (simp add: challenge_of_def open_platform_def)
  from notifications_of_a_presentation [OF pr] fin
  have "\<exists>m captcha.
      Some alice = Some m \<and>
      challenge_of open_platform (with_role 2 False) None = Some captcha \<and>
      emitted (snd (snd ?R)) =
        notifications (with_role 2 False) m (text_str captcha) Success
          (map content (take 2 (member_messages m ?evs)))"
    by (auto simp add: numeral_2_eq_2)
  then have "emitted (snd (snd ?R)) =
        notifications (with_role 2 False) alice (text_str (challenge ''k7tplx'')) Success
          (map content (take 2 (member_messages alice ?evs)))"
    unfolding ch by auto
  then show ?thesis
    unfolding mm
    by (simp add: notifications_def prompt_notification_def answer_notification_def
        outcome_notification_def challenge_def normalise_def with_role_def no_options_def
        toLowerCase_def lower_char_def)
qed

section \<open>Message cleanup\<close>

lemma response_deletions_append:
  "response_deletions (a @ b) = response_deletions a @ response_deletions b"
  by (induction a rule: response_deletions.induct) simp_all

lemma response_deletions_parts:
  "response_deletions (timeout_effects cx s) = []"
  "response_deletions (success_effects cx s) = []"
  "response_deletions (failure_effects cx s) = []"
  "response_deletions (reprompt_effects cx s) = []"
  "response_deletions (answer_effects cx s x) = (if in_guild_text cx then [x] else [])"
  by (simp_all add: timeout_effects_def success_effects_def failure_effects_def
      answer_effects_def reprompt_effects_def)

lemma clears_parts:
  "\<not> in_guild_text cx \<Longrightarrow> list_all (\<lambda>e. \<not> clears e) (timeout_effects cx s)"
  "\<not> in_guild_text cx \<Longrightarrow> list_all (\<lambda>e. \<not> clears e) (success_effects cx s)"
  "\<not> in_guild_text cx \<Longrightarrow> list_all (\<lambda>e. \<not> clears e) (failure_effects cx s)"
  "\<not> in_guild_text cx \<Longrightarrow> list_all (\<lambda>e. \<not> clears e) (reprompt_effects cx s)"
  "\<not> in_guild_text cx \<Longrightarrow> list_all (\<lambda>e. \<not> clears e) (answer_effects cx s x)"
  by (simp_all add: clears_def timeout_effects_def success_effects_def failure_effects_def
      answer_effects_def reprompt_effects_def)

lemma timely_parts:
  "list_all timely (timeout_effects cx s)"
  "list_all timely (success_effects cx s)"
  "list_all timely (failure_effects cx s)"
  "list_all timely (reprompt_effects cx s)"
  "list_all timely (answer_effects cx s x)"
  by (simp_all add: timely_def timeout_effects_def success_effects_def failure_effects_def
      answer_effects_def reprompt_effects_def)

lemma never_cleared_outside_guild_text:
  "\<not> in_guild_text cx \<Longrightarrow> list_all (\<lambda>e. \<not> clears e) (snd (snd (handleAttempt cx s evs)))"
proof (induction evs arbitrary: s)
  case Nil
  then show ?case by simp
next
  case (Cons e evs)
  show ?case
  proof (cases e)
    case TimerExpired
    with Cons.prems show ?thesis by (simp add: clears_parts)
  next
    case (Incoming x)
    with Cons show ?thesis
      by (cases "captchaFilter (cx_member cx) x";
          cases "normalise (cx_options cx) (content x) = text_str (cx_captcha cx)";
          cases "1 < attemptsLeft s")
        (simp_all add: handleAttempt_steps after_effects_sel clears_parts)
  qed
qed

lemma always_timely: "list_all timely (snd (snd (handleAttempt cx s evs)))"
proof (induction evs arbitrary: s)
  case Nil
  then show ?case by simp
next
  case (Cons e evs)
  show ?case
  proof (cases e)
    case TimerExpired
    then show ?thesis by (simp add: timely_parts)
  next
    case (Incoming x)
    with Cons show ?thesis
      by (cases "captchaFilter (cx_member cx) x";
          cases "normalise (cx_options cx) (content x) = text_str (cx_captcha cx)";
          cases "1 < attemptsLeft s")
        (simp_all add: handleAttempt_steps after_effects_sel timely_parts)
  qed
qed

text \<open>In a guild text channel every recorded response has been removed.\<close>

lemma responses_cleared_in_guild_text:
  "in_guild_text cx \<Longrightarrow>
   captchaResponses (fst (snd (handleAttempt cx s evs))) =
     captchaResponses s @
     map (\<lambda>x. normalise (cx_options cx) (content x))
       (response_deletions (snd (snd (handleAttempt cx s evs))))"
proof (induction evs arbitrary: s)
  case Nil
  then show ?case by simp
next
  case (Cons e evs)
  show ?case
  proof (cases e)
    case TimerExpired
    then show ?thesis by (simp add: response_deletions_parts)
  next
    case (Incoming x)
    with Cons show ?thesis
      by (cases "captchaFilter (cx_member cx) x";
          cases "normalise (cx_options cx) (content x) = text_str (cx_captcha cx)";
          cases "1 < attemptsLeft s")
        (simp_all add: handleAttempt_steps after_effects_sel response_deletions_append
          response_deletions_parts heard_def retried_def)
  qed
qed

lemma prompt_and_confirmation_cleanup:
  "(case fst (handleAttempt cx s evs) of
      Pending \<Rightarrow> Delete PromptMessage \<notin> set (snd (snd (handleAttempt cx s evs)))
    | TimedOut \<Rightarrow> Delete PromptMessage \<in> set (snd (snd (handleAttempt cx s evs)))
    | Success \<Rightarrow>
        (Delete PromptMessage \<in> set (snd (snd (handleAttempt cx s evs)))) = in_guild_text cx
    | Exhausted \<Rightarrow>
        (Delete PromptMessage \<in> set (snd (snd (handleAttempt cx s evs)))) = in_guild_text cx)
   \<and> (case fst (handleAttempt cx s evs) of
      Pending \<Rightarrow> True
    | Success \<Rightarrow>
        (DeleteAfter 3000 CorrectMessage \<in> set (snd (snd (handleAttempt cx s evs))))
          = in_guild_text cx
    | _ \<Rightarrow>
        (DeleteAfter 3000 IncorrectMessage \<in> set (snd (snd (handleAttempt cx s evs))))
          = in_guild_text cx)"
proof (induction evs arbitrary: s)
  case Nil
  then show ?case by simp
next
  case (Cons e evs)
  show ?case
  proof (cases e)
    case TimerExpired
    then show ?thesis by (simp add: timeout_effects_def)
  next
    case (Incoming x)
    show ?thesis
    proof (cases "captchaFilter (cx_member cx) x")
      case False
      with Incoming have same: "handleAttempt cx s (e # evs) = handleAttempt cx s evs"
        by (simp add: handleAttempt_ignored)
      show ?thesis unfolding same by (simp only: Cons.IH)
    next
      case True
      show ?thesis
      proof (cases "normalise (cx_options cx) (content x) = text_str (cx_captcha cx)")
        case match: True
        with True Incoming show ?thesis
          by (simp add: handleAttempt_match answer_effects_def success_effects_def)
      next
        case wrong: False
        show ?thesis
        proof (cases "1 < attemptsLeft s")
          case False
          with True wrong Incoming show ?thesis
            by (simp add: handleAttempt_last answer_effects_def failure_effects_def)
        next
          case more: True
          from Cons.IH [of "retried (heard cx s x)"] True wrong more Incoming show ?thesis
            by (cases "fst (handleAttempt cx (retried (heard cx s x)) evs)")
              (simp_all add: handleAttempt_retry after_effects_sel answer_effects_def
                reprompt_effects_def)
        qed
      qed
    qed
  qed
qed

text \<open>
  Claim C10. For the effects of the attempt loop, whatever the options, the state and
  the events:
  \<^item> outside a guild text channel (so in a direct-message channel) no response message
    and no confirmation message is removed;
  \<^item> a confirmation message is removed by a timer of 3000 milliseconds only, and only
    confirmation messages are removed by a timer;
  \<^item> in a guild text channel each recorded response has been removed, and the
    confirmation of the outcome is removed after 3000 milliseconds;
  \<^item> the prompt is removed on timeout in every channel, on success and on
    exhaustion exactly in a guild text channel, and not while the loop is pending.
\<close>

theorem cleanup_depends_on_channel_type:
  assumes "handleAttempt cx s evs = (out, s', effs)"
  shows "(\<not> in_guild_text cx \<longrightarrow> list_all (\<lambda>e. \<not> clears e) effs)
    \<and> list_all timely effs
    \<and> (in_guild_text cx \<longrightarrow>
         captchaResponses s' =
           captchaResponses s @
           map (\<lambda>x. normalise (cx_options cx) (content x)) (response_deletions effs))
    \<and> (case out of
          Pending \<Rightarrow> Delete PromptMessage \<notin> set effs
        | TimedOut \<Rightarrow> Delete PromptMessage \<in> set effs
        | Success \<Rightarrow> (Delete PromptMessage \<in> set effs) = in_guild_text cx
        | Exhausted \<Rightarrow> (Delete PromptMessage \<in> set effs) = in_guild_text cx)
    \<and> (case out of
          Pending \<Rightarrow> True
        | Success \<Rightarrow> (DeleteAfter 3000 CorrectMessage \<in> set effs) = in_guild_text cx
        | _ \<Rightarrow> (DeleteAfter 3000 IncorrectMessage \<in> set effs) = in_guild_text cx)"
proof -
  from assms have sel: "fst (handleAttempt cx s evs) = out"
    "fst (snd (handleAttempt cx s evs)) = s'" "snd (snd (handleAttempt cx s evs)) = effs"
    by simp_all
  from never_cleared_outside_guild_text [of cx s evs] sel
  have a: "\<not> in_guild_text cx \<longrightarrow> list_all (\<lambda>e. \<not> clears e) effs" by simp
  from always_timely [of cx s evs] sel have b: "list_all timely effs" by simp
  from responses_cleared_in_guild_text [of cx s evs] sel
  have c: "in_guild_text cx \<longrightarrow>
         captchaResponses s' =
           captchaResponses s @
           map (\<lambda>x. normalise (cx_options cx) (content x)) (response_deletions effs)"
    by simp
  from prompt_and_confirmation_cleanup [of cx s evs]
  have d: "(case out of
          Pending \<Rightarrow> Delete PromptMessage \<notin> set effs
        | TimedOut \<Rightarrow> Delete PromptMessage \<in> set effs
        | Success \<Rightarrow> (Delete PromptMessage \<in> set effs) = in_guild_text cx
        | Exhausted \<Rightarrow> (Delete PromptMessage \<in> set effs) = in_guild_text cx)
    \<and> (case out of
          Pending \<Rightarrow> True
        | Success \<Rightarrow> (DeleteAfter 3000 CorrectMessage \<in> set effs) = in_guild_text cx
        | _ \<Rightarrow> (DeleteAfter 3000 IncorrectMessage \<in> set effs) = in_guild_text cx)"
    unfolding sel .
  from a b c d show ?thesis by blast
qed

theorem cleanup_depends_on_channel_type_witness:
  "(\<exists>s' effs.
      handleAttempt \<lparr>cx_options = with_role 2 True, cx_member = alice,
          cx_captcha = challenge ''K7TPLX'', cx_channel = dm\<rparr>
        (start_session (with_role 2 True)) [says ''alice'' ''wrong'', says ''alice'' ''K7TPLX'']
        = (Success, s', effs)
      \<and> list_all (\<lambda>e. \<not> clears e) effs \<and> Delete PromptMessage \<notin> set effs)
   \<and> (\<exists>s' effs.
      handleAttempt \<lparr>cx_options = with_role 2 True, cx_member = alice,
          cx_captcha = challenge ''K7TPLX'', cx_channel = lobby\<rparr>
        (start_session (with_role 2 True)) [says ''alice'' ''wrong'', TimerExpired]
        = (TimedOut, s', effs)
      \<and> response_deletions effs = [\<lparr>author_id = ''alice'', content = ''wrong''\<rparr>]
      \<and> Delete PromptMessage \<in> set effs \<and> DeleteAfter 3000 IncorrectMessage \<in> set effs)"
proof -
  let ?d = "\<lparr>cx_options = with_role 2 True, cx_member = alice,
          cx_captcha = challenge ''K7TPLX'', cx_channel = dm\<rparr>"
  let ?l = "\<lparr>cx_options = with_role 2 True, cx_member = alice,
          cx_captcha = challenge ''K7TPLX'', cx_channel = lobby\<rparr>"
  let ?s = "start_session (with_role 2 True)"
  let ?rd = "handleAttempt ?d ?s [says ''alice'' ''wrong'', says ''alice'' ''K7TPLX'']"
  let ?rl = "handleAttempt ?l ?s [says ''alice'' ''wrong'', TimerExpired]"
  have gd: "\<not> in_guild_text ?d" and gl: "in_guild_text ?l"
    by (simp_all add: in_guild_text_def dm_def lobby_def)
  have od: "fst ?rd = Success" and ol: "fst ?rl = TimedOut"
    by (simp_all add: handleAttempt_eval fixture_defs start_session_def number_or_def
        captchaFilter_def normalise_def)
  have hl: "response_deletions (snd (snd ?rl)) = [\<lparr>author_id = ''alice'', content = ''wrong''\<rparr>]"
    by (simp add: handleAttempt_eval fixture_defs start_session_def number_or_def
        captchaFilter_def normalise_def effect_defs truthy_bool_def)
  have pd: "?rd = (fst ?rd, fst (snd ?rd), snd (snd ?rd))"
    and pl: "?rl = (fst ?rl, fst (snd ?rl), snd (snd ?rl))"
    by simp_all
  from cleanup_depends_on_channel_type [OF pd] gd od
  have "list_all (\<lambda>e. \<not> clears e) (snd (snd ?rd)) \<and> Delete PromptMessage \<notin> set (snd (snd ?rd))"
    by simp
  with pd od have first: "\<exists>s' effs. ?rd = (Success, s', effs)
      \<and> list_all (\<lambda>e. \<not> clears e) effs \<and> Delete PromptMessage \<notin> set effs"
    by metis
  from cleanup_depends_on_channel_type [OF pl] gl ol
  have "Delete PromptMessage \<in> set (snd (snd ?rl))
      \<and> DeleteAfter 3000 IncorrectMessage \<in> set (snd (snd ?rl))"
    by simp
  with pl ol hl have second: "\<exists>s' effs. ?rl = (TimedOut, s', effs)
      \<and> response_deletions effs = [\<lparr>author_id = ''alice'', content = ''wrong''\<rparr>]
      \<and> Delete PromptMessage \<in> set effs \<and> DeleteAfter 3000 IncorrectMessage \<in> set effs"
    by metis
  from first second show ?thesis by blast
qed

section \<open>The constructor\<close>

text \<open>What the constructor fills in, and what it leaves as given.\<close>

lemma guarded_constructed:
  "(if a then Unconfigured else if b then ProcessExit else if d then ProcessExit
    else if e then ProcessExit else if f then ProcessExit else if g then ProcessExit
    else Constructed x) = Constructed c \<Longrightarrow>
   c = x \<and> \<not> a \<and> \<not> b \<and> \<not> d \<and> \<not> e \<and> \<not> f \<and> \<not> g"
  by (simp split: if_splits)

lemma constructor_constructed:
  assumes "constructor v client options = Constructed c"
  shows "c = options
        \<lparr>addRoleOnSuccess :=
           (if addRoleOnSuccess options = None then Some True else addRoleOnSuccess options),
         attempts := Some (number_or (attempts options) 1),
         caseSensitive :=
           (if caseSensitive options = None then Some True else caseSensitive options),
         timeout := Some (number_or (timeout options) 60000),
         showAttemptCount :=
           (if showAttemptCount options = None then Some True else showAttemptCount options)\<rparr>"
  using assms unfolding constructor_def by (rule guarded_constructed [THEN conjunct1])

lemma constructor_guards:
  assumes "constructor v client options = Constructed c"
  shows "\<not> (truthy_number (attempts options) \<and> number_less (attempts options) 1)"
    and "\<not> (truthy_number (timeout options) \<and> number_less (timeout options) 1)"
  using guarded_constructed [OF assms [unfolded constructor_def]] by blast+

lemma constructor_defaults:
  assumes "constructor v client options = Constructed c"
  shows "roleID c = roleID options \<and> channelID c = channelID options \<and>
   sendToTextChannel c = sendToTextChannel options \<and>
   kickOnFailure c = kickOnFailure options \<and>
   addRoleOnSuccess c = Some (case addRoleOnSuccess options of None \<Rightarrow> True | Some b \<Rightarrow> b) \<and>
   caseSensitive c = Some (case caseSensitive options of None \<Rightarrow> True | Some b \<Rightarrow> b) \<and>
   attempts c = Some (number_or (attempts options) 1) \<and>
   timeout c = Some (number_or (timeout options) 60000) \<and>
   showAttemptCount c = Some (case showAttemptCount options of None \<Rightarrow> True | Some b \<Rightarrow> b)"
  unfolding constructor_constructed [OF assms]
  by (simp split: option.splits)

lemma constructed_counts:
  assumes "constructor v client options = Constructed c"
  shows "\<exists>n t. attempts c = Some n \<and> 1 \<le> n \<and> timeout c = Some t \<and> 1 \<le> t"
proof -
  note a = constructor_guards(1) [OF assms] and t = constructor_guards(2) [OF assms]
  from a have "1 \<le> number_or (attempts options) 1"
    by (cases "attempts options") (auto simp add: js_defs)
  moreover from t have "1 \<le> number_or (timeout options) 60000"
    by (cases "timeout options") (auto simp add: js_defs)
  ultimately show ?thesis
    unfolding constructor_constructed [OF assms] by simp
qed

text \<open>The violations that do end the process.\<close>

lemma constructor_fatal:
  "14 \<le> v \<Longrightarrow>
   (sendToTextChannel options = Some True \<and> \<not> truthy_string (channelID options)) \<or>
   (addRoleOnSuccess options = Some True \<and> \<not> truthy_string (roleID options)) \<or>
   (\<exists>n. attempts options = Some n \<and> n < 0) \<or>
   (\<exists>n. timeout options = Some n \<and> n < 0) \<Longrightarrow>
   constructor v client options = ProcessExit"
  by (auto simp add: constructor_def js_defs)

text \<open>
  Claim C2 on the options \<^verbatim>\<open>{}\<close>. The constructor fills in \<^verbatim>\<open>addRoleOnSuccess\<close>,
  \<^verbatim>\<open>attempts\<close>, \<^verbatim>\<open>caseSensitive\<close>, \<^verbatim>\<open>timeout\<close> and \<^verbatim>\<open>showAttemptCount\<close>, and leaves
  \<^verbatim>\<open>kickOnFailure\<close> undefined; lines 275 and 349 test it for truthiness, so a member who
  fails, by a wrong answer or by a timeout, is not kicked.
\<close>

theorem no_kick_by_default:
  "constructor 14 True no_options = Constructed defaults
   \<and> kickOnFailure defaults = None
   \<and> fst (snd (run open_platform defaults (Some alice) None [says ''alice'' ''wrong'']))
     = Some (Exhausted, \<lparr>attemptsLeft = 1, attemptsTaken = 1, captchaResponses = [''wrong'']\<rparr>)
   \<and> Kick ''Failed to Pass CAPTCHA''
     \<notin> set (snd (snd (run open_platform defaults (Some alice) None [says ''alice'' ''wrong''])))
   \<and> Kick ''Failed to Pass CAPTCHA''
     \<notin> set (snd (snd (run open_platform defaults (Some alice) None [TimerExpired])))"
  by (simp add: constructor_def present_defs fixture_defs js_defs handleAttempt_eval effect_defs)

text \<open>With \<^verbatim>\<open>kickOnFailure: true\<close> the same failure does kick.\<close>

lemma kick_when_configured:
  "Kick ''Failed to Pass CAPTCHA''
     \<in> set (snd (snd (run open_platform (defaults\<lparr>kickOnFailure := Some True\<rparr>) (Some alice) None
          [says ''alice'' ''wrong''])))"
  by (simp add: present_defs fixture_defs js_defs handleAttempt_eval effect_defs)

text \<open>
  Claim C3 on three options objects that violate the invariants of the specification and
  are constructed all the same: \<^verbatim>\<open>{}\<close> (the role is granted by default and no role is
  given; on success line 305 calls \<^verbatim>\<open>member.roles.add(undefined)\<close>),
  \<^verbatim>\<open>{roleID: "role", attempts: 0}\<close> and \<^verbatim>\<open>{roleID: "role", timeout: 0}\<close> (the checks of
  lines 134 and 138 skip a falsy number, and lines 144 and 146 replace it by the default).
\<close>

theorem invalid_options_constructed:
  "constructor 14 True no_options = Constructed defaults
   \<and> addRoleOnSuccess defaults = Some True \<and> roleID defaults = None
   \<and> AddRole None
     \<in> set (snd (snd (run open_platform defaults (Some alice) None [says ''alice'' ''k7tplx''])))
   \<and> constructor 14 True (no_options\<lparr>roleID := Some ''role'', attempts := Some 0\<rparr>)
     = Constructed (with_role 1 True)
   \<and> constructor 14 True (no_options\<lparr>roleID := Some ''role'', timeout := Some 0\<rparr>)
     = Constructed (with_role 1 True)"
  by (simp add: constructor_def present_defs fixture_defs js_defs handleAttempt_eval effect_defs)

section \<open>Case sensitivity\<close>

lemma lower_char_idem: "lower_char (lower_char c) = lower_char c"
  by (simp add: lower_char_def)

lemma toLowerCase_idem: "toLowerCase (toLowerCase s) = toLowerCase s"
  by (simp add: toLowerCase_def lower_char_idem)

lemma normalise_sensitive: "caseSensitive options = Some True \<Longrightarrow> normalise options r = r"
  by (simp add: normalise_def)

lemma normalise_insensitive:
  "caseSensitive options \<noteq> Some True \<Longrightarrow> normalise options r = toLowerCase r"
  by (simp add: normalise_def)

text \<open>
  The comparison of line 295 is between the normalised response and the captcha text as
  it is: the loop succeeds only on an answer equal to the text itself.
\<close>

lemma success_needs_match:
  "fst (handleAttempt cx s evs) = Success \<Longrightarrow> text_str (cx_captcha cx) \<in> set (answers cx evs)"
proof (induction evs arbitrary: s)
  case Nil
  then show ?case by simp
next
  case (Cons e evs)
  show ?case
  proof (cases e)
    case TimerExpired
    with Cons.prems show ?thesis by simp
  next
    case (Incoming x)
    with Cons show ?thesis
      by (cases "captchaFilter (cx_member cx) x";
          cases "normalise (cx_options cx) (content x) = text_str (cx_captcha cx)";
          cases "1 < attemptsLeft s")
        (simp_all add: handleAttempt_steps after_effects_sel)
  qed
qed

lemma answers_lower:
  "caseSensitive (cx_options cx) \<noteq> Some True \<Longrightarrow> a \<in> set (answers cx evs) \<Longrightarrow>
   toLowerCase a = a"
  by (induction cx evs rule: answers.induct)
    (auto simp add: normalise_insensitive toLowerCase_idem split: if_splits)

text \<open>
  So a captcha text with an upper-case letter cannot be solved when \<^verbatim>\<open>caseSensitive\<close>
  is not \<^verbatim>\<open>true\<close>.
\<close>

lemma upper_case_text_unsolvable:
  "caseSensitive (cx_options cx) \<noteq> Some True \<Longrightarrow>
   toLowerCase (text_str (cx_captcha cx)) \<noteq> text_str (cx_captcha cx) \<Longrightarrow>
   fst (handleAttempt cx s evs) \<noteq> Success"
  using success_needs_match [of cx s evs] answers_lower [of cx "text_str (cx_captcha cx)" evs]
  by auto

text \<open>A lower-case text is matched by a response in any case.\<close>

lemma lower_case_text_matched:
  "fst (snd (run open_platform (with_role 1 False) (Some alice)
       (Some \<lparr>custom_image = BufferImage png, custom_text = Some ''ab3f9q''\<rparr>)
       [says ''alice'' ''AB3F9Q'']))
     = Some (Success, \<lparr>attemptsLeft = 1, attemptsTaken = 1, captchaResponses = [''ab3f9q'']\<rparr>)"
  by (simp add: present_defs fixture_defs js_defs handleAttempt_eval)

text \<open>
  Claim C1 on a custom captcha with the text \<^verbatim>\<open>AB3F9Q\<close>, \<^verbatim>\<open>caseSensitive: false\<close> and
  one attempt: the response \<^verbatim>\<open>ab3f9q\<close> is recorded as \<^verbatim>\<open>ab3f9q\<close>, compared with
  \<^verbatim>\<open>AB3F9Q\<close> and judged wrong; so is the response \<^verbatim>\<open>AB3F9Q\<close>.
\<close>

theorem uppercase_custom_text_unmatched:
  "fst (snd (run open_platform (with_role 1 False) (Some alice)
       (Some \<lparr>custom_image = BufferImage png, custom_text = Some ''AB3F9Q''\<rparr>)
       [says ''alice'' ''ab3f9q'']))
     = Some (Exhausted, \<lparr>attemptsLeft = 1, attemptsTaken = 1, captchaResponses = [''ab3f9q'']\<rparr>)
   \<and> fst (snd (run open_platform (with_role 1 False) (Some alice)
       (Some \<lparr>custom_image = BufferImage png, custom_text = Some ''AB3F9Q''\<rparr>)
       [says ''alice'' ''AB3F9Q'']))
     = Some (Exhausted, \<lparr>attemptsLeft = 1, attemptsTaken = 1, captchaResponses = [''ab3f9q'']\<rparr>)"
  by (simp add: present_defs fixture_defs js_defs handleAttempt_eval)

section \<open>Delivery\<close>

text \<open>When \<^verbatim>\<open>handleChannelType\<close> returns a channel.\<close>

lemma handleChannelType_returns:
  "handleChannelType env options = Inr channel \<longleftrightarrow>
     (\<not> truthy_string (channelID options) \<and> createDM env = Some channel) \<or>
     (truthy_string (channelID options) \<and> sendToTextChannel options = Some True \<and>
      resolve_id env (channelID options) = Some channel)"
  by (auto simp add: handleChannelType_def resolve_id_def truthy_string_def
      split: option.splits)

text \<open>
  A channel given as the fallback for locked direct messages (\<^verbatim>\<open>channelID\<close> set,
  \<^verbatim>\<open>sendToTextChannel\<close> not \<^verbatim>\<open>true\<close>) makes \<^verbatim>\<open>handleChannelType\<close> throw on every
  platform, and \<^verbatim>\<open>present\<close> with it, before anything is sent.
\<close>

lemma fallback_configured_throws:
  "truthy_string (channelID options) \<Longrightarrow> sendToTextChannel options \<noteq> Some True \<Longrightarrow>
   handleChannelType env options = Inl ChannelNotFound \<and>
   present env options (Some m) None = (Threw ChannelNotFound, [], None)"
  by (simp add: handleChannelType_def present_def)

text \<open>
  Claim C7 on the options \<^verbatim>\<open>{roleID: "role", channelID: "lobby"}\<close>: on a platform where
  the direct-message channel and the channel \<open>lobby\<close> both exist and accept messages,
  \<^verbatim>\<open>handleChannelType\<close> throws "Channel not found or not accessible." and \<^verbatim>\<open>present\<close>
  rejects with no effect; on a platform where the direct messages are locked it does the
  same, so the fallback channel is not tried.
\<close>

theorem fallback_channel_never_resolved:
  "handleChannelType open_platform ((with_role 1 True)\<lparr>channelID := Some ''lobby''\<rparr>)
     = Inl ChannelNotFound
   \<and> present open_platform ((with_role 1 True)\<lparr>channelID := Some ''lobby''\<rparr>) (Some alice) None
     = (Threw ChannelNotFound, [], None)
   \<and> present locked_platform ((with_role 1 True)\<lparr>channelID := Some ''lobby''\<rparr>) (Some alice) None
     = (Threw ChannelNotFound, [], None)"
  by (simp add: present_defs fixture_defs js_defs)

text \<open>The checks of lines 181 to 186.\<close>

lemma present_without_member: "present env options None custom = (Returned False, [], None)"
  by (simp add: present_def)

lemma checked_custom_rejects:
  "checked_custom c = None \<longleftrightarrow>
     custom_image c = FalsyImage \<or> custom_image c = OtherImage \<or>
     \<not> truthy_string (custom_text c)"
  by (auto simp add: checked_custom_def truthy_string_def split: image_value.splits option.splits)

lemma present_rejects_custom:
  "checked_custom c = None \<Longrightarrow> present env options member (Some c) = (Returned False, [], None)"
  by (simp add: present_def split: option.splits)

text \<open>A \<^verbatim>\<open>Buffer\<close> of length zero is truthy and passes the checks.\<close>

lemma empty_buffer_accepted:
  "checked_custom \<lparr>custom_image = BufferImage [], custom_text = Some ''abc''\<rparr>
     = Some \<lparr>image_buf = [], text_str = ''abc''\<rparr>"
  by (simp add: checked_custom_def truthy_string_def)

text \<open>\<^verbatim>\<open>present\<close> returns \<^verbatim>\<open>false\<close> from these checks only, and then has done nothing.\<close>

lemma present_false:
  "present env options member custom = (Returned False, effs, started) \<Longrightarrow>
   effs = [] \<and> started = None \<and>
   (member = None \<or> (\<exists>c. custom = Some c \<and> checked_custom c = None))"
  by (auto simp add: present_def split: option.splits sum.splits prod.splits delivery.splits)

text \<open>The attempt loop is started only after the prompt was sent.\<close>

lemma sent_send_prompt:
  "send_prompt env foot target = (Inr channel, effs) \<Longrightarrow> Send channel (Prompt foot) \<in> set effs"
  by (auto simp add: send_prompt_def split: option.splits if_splits)

lemma sent_deliver_fallback:
  "deliver_fallback env options foot = (Delivered channel, effs) \<Longrightarrow>
   Send channel (Prompt foot) \<in> set effs"
  by (auto simp add: deliver_fallback_def split: prod.splits sum.splits if_splits
      dest: sent_send_prompt)

lemma sent_deliver:
  "deliver env options foot = (Delivered channel, effs) \<Longrightarrow>
   Send channel (Prompt foot) \<in> set effs"
  by (auto simp add: deliver_def Let_def
      split: prod.splits sum.splits option.splits if_splits
      dest: sent_send_prompt sent_deliver_fallback)

lemma round_needs_prompt:
  "present env options member custom = (r, effs, Some (cx, s)) \<Longrightarrow>
   Send (cx_channel cx) (Prompt (first_footer options)) \<in> set effs"
  by (auto simp add: present_def
      split: option.splits sum.splits prod.splits delivery.splits
      dest: sent_deliver)

text \<open>
  Claim C9 on a member whose direct messages are locked and options without
  \<^verbatim>\<open>channelID\<close>: the prompt is refused, the error is logged, no \<^verbatim>\<open>prompt\<close> event is
  emitted and no attempt loop is started, and \<^verbatim>\<open>present\<close> returns \<^verbatim>\<open>true\<close>.
\<close>

theorem returns_true_without_prompt:
  "present locked_platform (with_role 1 True) (Some alice) None
     = (Returned True, [SendRefused dm, Log], None)"
  by (simp add: present_defs fixture_defs js_defs)

end
